theory Spec2Isabelle
  imports Complex_Main
begin

section \<open>JavaScript values\<close>

text \<open>
  The management client of \<^verbatim>\<open>listSynonymMaps.js\<close> (class
  \<^verbatim>\<open>ServiceBusManagementClient\<close>) is TypeScript; at run time its arguments are
  JavaScript values. The values modelled are \<^verbatim>\<open>undefined\<close>, \<^verbatim>\<open>null\<close>, booleans,
  numbers, strings, plain data objects (without accessors and without their own
  \<^verbatim>\<open>valueOf\<close> or \<^verbatim>\<open>toString\<close>) and arrays of such values. An array is given by
  its elements and by the value of its \<^verbatim>\<open>nextLink\<close> property, which the Atom
  deserializer may set on the array of a list response and which is
  \<^verbatim>\<open>undefined\<close> on any other array.

  A number is kept as the exact rational value of its literal. The only places
  where the source looks at a number are a truth test (\<^verbatim>\<open>if (skip)\<close>) and the
  comparison \<^verbatim>\<open>Number(token) >= 0\<close>; both are decided on the binary64 value, which
  differs from the exact one only where the exact value is so small that it is
  rounded to zero (\<open>rounds_to_zero\<close>). Positive and negative zero are not told
  apart: the source never divides by them.
\<close>

datatype js_number = NaN | Finite rat | Infinity | NegInfinity

datatype js_value =
    JUndefined
  | JNull
  | JBoolean bool
  | JNumber js_number
  | JString string
  | JObject "(string \<times> js_value) list"
  | JArray "js_value list" js_value

definition rounds_to_zero :: "rat \<Rightarrow> bool" where
  "rounds_to_zero q = (\<bar>q\<bar> \<le> 1 / 2 ^ 1075)"

definition number_truthy :: "js_number \<Rightarrow> bool" where
  "number_truthy n =
     (case n of NaN \<Rightarrow> False | Finite q \<Rightarrow> \<not> rounds_to_zero q
      | Infinity \<Rightarrow> True | NegInfinity \<Rightarrow> True)"

text \<open>\<^verbatim>\<open>n >= 0\<close> on numbers: false for \<^verbatim>\<open>NaN\<close>.\<close>

definition number_ge0 :: "js_number \<Rightarrow> bool" where
  "number_ge0 n =
     (case n of NaN \<Rightarrow> False | Finite q \<Rightarrow> 0 \<le> q \<or> rounds_to_zero q
      | Infinity \<Rightarrow> True | NegInfinity \<Rightarrow> False)"

text \<open>The truth test of \<^verbatim>\<open>if (v)\<close>, \<^verbatim>\<open>!v\<close> and \<^verbatim>\<open>while (v)\<close>.\<close>

fun truthy :: "js_value \<Rightarrow> bool" where
  "truthy JUndefined = False"
| "truthy JNull = False"
| "truthy (JBoolean b) = b"
| "truthy (JNumber n) = number_truthy n"
| "truthy (JString s) = (s \<noteq> [])"
| "truthy (JObject fs) = True"
| "truthy (JArray xs link) = True"

subsection \<open>The conversion \<^verbatim>\<open>Number(s)\<close> of a string\<close>

text \<open>
  \<^verbatim>\<open>Number\<close> applied to a string follows the grammar of a string numeric
  literal: white space is trimmed, the empty string is 0, then either a
  hexadecimal, octal or binary integer (\<^verbatim>\<open>0x\<close>, \<^verbatim>\<open>0o\<close>, \<^verbatim>\<open>0b\<close>, unsigned) or an
  optionally signed decimal literal (\<^verbatim>\<open>Infinity\<close>, or digits with an optional
  fraction and an optional exponent). Anything else is \<^verbatim>\<open>NaN\<close>. Strings are
  sequences of 8-bit characters here, read as the code units U+0000 to U+00FF.
  The white space and line terminator characters among them are the space, the
  tab, the line feed, the vertical tab, the form feed, the carriage return and
  the no-break space U+00A0.
\<close>

definition isWhiteSpace :: "char \<Rightarrow> bool" where
  "isWhiteSpace c =
     (c \<in> set [CHR '' '', CHR 0x09, CHR 0x0A, CHR 0x0B, CHR 0x0C, CHR 0x0D, CHR 0xA0])"

definition trim :: "string \<Rightarrow> string" where
  "trim s = rev (dropWhile isWhiteSpace (rev (dropWhile isWhiteSpace s)))"

definition digit_of :: "char \<Rightarrow> nat option" where
  "digit_of c =
     (let n = (of_char c :: nat) in
      if 48 \<le> n \<and> n \<le> 57 then Some (n - 48)
      else if 97 \<le> n \<and> n \<le> 102 then Some (n - 87)
      else if 65 \<le> n \<and> n \<le> 70 then Some (n - 55)
      else None)"

definition isDigitIn :: "nat \<Rightarrow> char \<Rightarrow> bool" where
  "isDigitIn radix c = (case digit_of c of None \<Rightarrow> False | Some d \<Rightarrow> d < radix)"

definition digitsValue :: "nat \<Rightarrow> string \<Rightarrow> nat" where
  "digitsValue radix s =
     foldl (\<lambda>acc c. acc * radix + (case digit_of c of None \<Rightarrow> 0 | Some d \<Rightarrow> d)) 0 s"

text \<open>A non-empty run of digits of the given radix, and nothing else.\<close>

definition allDigits :: "nat \<Rightarrow> string \<Rightarrow> nat option" where
  "allDigits radix s =
     (if s \<noteq> [] \<and> list_all (isDigitIn radix) s then Some (digitsValue radix s) else None)"

definition NonDecimalIntegerLiteral :: "string \<Rightarrow> nat option" where
  "NonDecimalIntegerLiteral s =
     (case s of
        c0 # c1 # ds \<Rightarrow>
          if c0 \<noteq> CHR ''0'' then None
          else if c1 = CHR ''x'' \<or> c1 = CHR ''X'' then allDigits 16 ds
          else if c1 = CHR ''o'' \<or> c1 = CHR ''O'' then allDigits 8 ds
          else if c1 = CHR ''b'' \<or> c1 = CHR ''B'' then allDigits 2 ds
          else None
      | _ \<Rightarrow> None)"

text \<open>The exponent part after the letter \<^verbatim>\<open>e\<close>: an optional sign and digits.\<close>

definition ExponentDigits :: "string \<Rightarrow> int option" where
  "ExponentDigits s =
     (case s of
        [] \<Rightarrow> None
      | c # ds \<Rightarrow>
          if c = CHR ''+'' then map_option int (allDigits 10 ds)
          else if c = CHR ''-'' then map_option (\<lambda>n. - int n) (allDigits 10 ds)
          else map_option int (allDigits 10 s))"

definition scale10 :: "rat \<Rightarrow> int \<Rightarrow> rat" where
  "scale10 q k = (if 0 \<le> k then q * 10 ^ nat k else q / 10 ^ nat (- k))"

definition StrUnsignedDecimalLiteral :: "string \<Rightarrow> js_number" where
  "StrUnsignedDecimalLiteral s =
     (if s = ''Infinity'' then Infinity
      else
        let ip = takeWhile (isDigitIn 10) s;
            r1 = dropWhile (isDigitIn 10) s;
            fp = (case r1 of [] \<Rightarrow> [] | c # t \<Rightarrow>
                    if c = CHR ''.'' then takeWhile (isDigitIn 10) t else []);
            r2 = (case r1 of [] \<Rightarrow> [] | c # t \<Rightarrow>
                    if c = CHR ''.'' then dropWhile (isDigitIn 10) t else r1);
            ex = (case r2 of [] \<Rightarrow> Some 0 | c # t \<Rightarrow>
                    if c = CHR ''e'' \<or> c = CHR ''E'' then ExponentDigits t else None)
        in if ip = [] \<and> fp = [] then NaN
           else (case ex of
                   None \<Rightarrow> NaN
                 | Some k \<Rightarrow>
                     Finite (scale10 (of_nat (digitsValue 10 (ip @ fp))) (k - int (length fp)))))"

definition negate :: "js_number \<Rightarrow> js_number" where
  "negate n =
     (case n of NaN \<Rightarrow> NaN | Finite q \<Rightarrow> Finite (- q)
      | Infinity \<Rightarrow> NegInfinity | NegInfinity \<Rightarrow> Infinity)"

definition StringToNumber :: "string \<Rightarrow> js_number" where
  "StringToNumber s =
     (let t = trim s in
      if t = [] then Finite 0
      else (case NonDecimalIntegerLiteral t of
              Some n \<Rightarrow> Finite (of_nat n)
            | None \<Rightarrow>
                (case t of
                   [] \<Rightarrow> Finite 0
                 | c # r \<Rightarrow>
                     if c = CHR ''+'' then StrUnsignedDecimalLiteral r
                     else if c = CHR ''-'' then negate (StrUnsignedDecimalLiteral r)
                     else StrUnsignedDecimalLiteral t)))"

text \<open>
  \<^verbatim>\<open>Number(v)\<close> on a value. A plain data object converts through the string
  \<^verbatim>\<open>[object Object]\<close> and is \<^verbatim>\<open>NaN\<close>. An array converts through the string that
  joins its elements with commas: the empty string for the empty array, the
  string of its element for a singleton (empty for \<^verbatim>\<open>undefined\<close> and \<^verbatim>\<open>null\<close>; a
  number printed and read again is the same number), and a string with a comma,
  which is no numeric literal, for a longer array.
\<close>

fun Number :: "js_value \<Rightarrow> js_number" where
  "Number JUndefined = NaN"
| "Number JNull = Finite 0"
| "Number (JBoolean b) = (if b then Finite 1 else Finite 0)"
| "Number (JNumber n) = n"
| "Number (JString s) = StringToNumber s"
| "Number (JObject fs) = NaN"
| "Number (JArray [] link) = Finite 0"
| "Number (JArray [JUndefined] link) = Finite 0"
| "Number (JArray [JNull] link) = Finite 0"
| "Number (JArray [JBoolean b] link) = NaN"
| "Number (JArray [JNumber n] link) = n"
| "Number (JArray [JString s] link) = StringToNumber s"
| "Number (JArray [JObject fs] link) = NaN"
| "Number (JArray [JArray xs link'] link) = Number (JArray xs link')"
| "Number (JArray (x # y # zs) link) = NaN"


text \<open>\<^verbatim>\<open>typeof v === "string"\<close>.\<close>

fun isString :: "js_value \<Rightarrow> bool" where
  "isString (JString s) = True"
| "isString v = False"

text \<open>\<^verbatim>\<open>Array.isArray(v)\<close>, and the elements \<^verbatim>\<open>v[0]\<close>, ..., \<^verbatim>\<open>v[v.length - 1]\<close>.\<close>

fun isArray :: "js_value \<Rightarrow> bool" where
  "isArray (JArray xs link) = True"
| "isArray v = False"

fun elements :: "js_value \<Rightarrow> js_value list" where
  "elements (JArray xs link) = xs"
| "elements v = []"

section \<open>Requests, responses and errors\<close>

text \<open>
  A request is what \<^verbatim>\<open>new WebResource(this.getUrl(path, queryParams), method)\<close>
  describes. The host name and the \<^verbatim>\<open>api-version\<close> parameter are the same in
  every request and are left out. The path is kept as the list of the values the
  source concatenates, and a query parameter as the number whose \<^verbatim>\<open>toString()\<close>
  is sent, so that no conversion to text has to be modelled.
\<close>

datatype http_method = GET | PUT | DELETE

record request =
  req_method :: http_method
  req_path :: "js_value list"
  req_query :: "(string \<times> js_number) list"
  req_body :: "js_value option"
  req_ifMatch :: bool

record response =
  status :: nat
  request :: request
  parsedBody :: js_value

text \<open>
  \<^verbatim>\<open>stripRequest\<close> and \<^verbatim>\<open>stripResponse\<close> belong to the HTTP library; their
  results are kept symbolic.
\<close>

datatype stripped_request = stripRequest request

datatype stripped_response = stripResponse response

text \<open>
  What can be thrown: a \<^verbatim>\<open>TypeError\<close>, a plain \<^verbatim>\<open>Error\<close>, or a \<^verbatim>\<open>RestError\<close>
  with its code, status code, request and response. Message texts are not
  modelled.
\<close>

datatype error =
    TypeError
  | Error
  | RestError "string option" "nat option" "stripped_request option" "stripped_response option"

text \<open>The property \<^verbatim>\<open>error.code\<close>; \<open>None\<close> is \<^verbatim>\<open>undefined\<close>.\<close>

fun error_code :: "error \<Rightarrow> string option" where
  "error_code (RestError c st rq rs) = c"
| "error_code e = None"

fun error_statusCode :: "error \<Rightarrow> nat option" where
  "error_statusCode (RestError c st rq rs) = st"
| "error_statusCode e = None"

definition PARSE_ERROR :: string where
  "PARSE_ERROR = ''PARSE_ERROR''"

text \<open>
  Modelled from the spec: \<^verbatim>\<open>Constants.XML_METADATA_MARKER\<close> of \<^verbatim>\<open>util/constants\<close> is
  not among the sources; the spec gives the query convention \<^verbatim>\<open>$skip\<close>, \<^verbatim>\<open>$top\<close>.
\<close>

definition XML_METADATA_MARKER :: string where
  "XML_METADATA_MARKER = ''$''"

text \<open>
  Reading a property \<^verbatim>\<open>v.key\<close>: a \<^verbatim>\<open>TypeError\<close> on \<^verbatim>\<open>undefined\<close> and \<^verbatim>\<open>null\<close>,
  the field of a data object, the \<^verbatim>\<open>nextLink\<close> of an array, and \<^verbatim>\<open>undefined\<close>
  otherwise (none of the keys read by the source, \<^verbatim>\<open>nextLink\<close>, \<^verbatim>\<open>name\<close>,
  \<^verbatim>\<open>topicName\<close> and \<^verbatim>\<open>subscriptionName\<close>, is a built-in property of a boolean, a
  number, a string or an array).
\<close>

fun get_property :: "js_value \<Rightarrow> string \<Rightarrow> error + js_value" where
  "get_property JUndefined key = Inl TypeError"
| "get_property JNull key = Inl TypeError"
| "get_property (JObject fs) key =
     Inr (case map_of fs key of None \<Rightarrow> JUndefined | Some v \<Rightarrow> v)"
| "get_property (JArray xs link) key = Inr (if key = ''nextLink'' then link else JUndefined)"
| "get_property v key = Inr JUndefined"

section \<open>The transport\<close>

text \<open>
  Modelled from the spec: \<^verbatim>\<open>executeAtomXmlOperation\<close> of \<^verbatim>\<open>util/atomXmlHelper\<close> is
  not among the sources. The spec describes the transport collaborator as a
  black box that accepts a request and either returns a success envelope or
  raises a transport-level error. A deterministic backend is a function \<open>srv\<close>
  from the request to that outcome. The list \<open>sent\<close> of the requests issued so
  far is threaded through every operation, so that "no request is sent" is the
  statement that this list is returned unchanged.
\<close>

type_synonym service = "request \<Rightarrow> error + response"

type_synonym wire = "request list"

definition executeAtomXmlOperation ::
  "service \<Rightarrow> request \<Rightarrow> wire \<Rightarrow> (error + response) \<times> wire" where
  "executeAtomXmlOperation srv webResource sent = (srv webResource, sent @ [webResource])"

text \<open>
  \<^verbatim>\<open>new WebResource(this.getUrl(path, queryParams), method)\<close>: a request without
  body and without an \<^verbatim>\<open>If-Match\<close> header.
\<close>

definition WebResource ::
  "js_value list \<Rightarrow> (string \<times> js_number) list \<Rightarrow> http_method \<Rightarrow> request" where
  "WebResource urlPath queryParams m =
     \<lparr>req_method = m, req_path = urlPath, req_query = queryParams,
      req_body = None, req_ifMatch = False\<rparr>"

text \<open>
  \<^verbatim>\<open>listResources(name, listRequestOptions, serializer)\<close>: \<^verbatim>\<open>$skip\<close> and \<^verbatim>\<open>$top\<close> are
  added only when the option is truthy. \<open>None\<close> is an \<^verbatim>\<open>undefined\<close>
  \<^verbatim>\<open>maxCount\<close>.
\<close>

definition listResources ::
  "service \<Rightarrow> js_value list \<Rightarrow> js_number \<Rightarrow> js_number option \<Rightarrow> wire
   \<Rightarrow> (error + response) \<times> wire" where
  "listResources srv name skip maxCount sent =
     (let queryParams =
            (if number_truthy skip then [(XML_METADATA_MARKER @ ''skip'', skip)] else []) @
            (case maxCount of
               None \<Rightarrow> []
             | Some n \<Rightarrow> if number_truthy n then [(XML_METADATA_MARKER @ ''top'', n)] else [])
      in executeAtomXmlOperation srv (WebResource name queryParams GET) sent)"

definition MessageEntityNotFoundError :: string where
  "MessageEntityNotFoundError = ''MessageEntityNotFoundError''"

text \<open>\<^verbatim>\<open>parsedBody == undefined\<close> holds of \<^verbatim>\<open>undefined\<close> and of \<^verbatim>\<open>null\<close>.\<close>

definition is_not_found_body :: "js_value \<Rightarrow> bool" where
  "is_not_found_body b =
     (b = JUndefined \<or> b = JNull \<or> (isArray b \<and> length (elements b) = 0))"

definition getResource ::
  "service \<Rightarrow> js_value list \<Rightarrow> wire \<Rightarrow> (error + response) \<times> wire" where
  "getResource srv name sent =
     (let webResource = WebResource name [] GET
      in case executeAtomXmlOperation srv webResource sent of
           (Inl e, sent') \<Rightarrow> (Inl e, sent')
         | (Inr resp, sent') \<Rightarrow>
             if is_not_found_body (parsedBody resp)
             then (Inl (RestError (Some MessageEntityNotFoundError) (Some 404)
                          (Some (stripRequest webResource)) (Some (stripResponse resp))), sent')
             else (Inr resp, sent'))"

text \<open>
  \<^verbatim>\<open>putResource\<close>: the supplementary authorization headers for forwarding
  entities are not modelled.
\<close>

definition putResource ::
  "service \<Rightarrow> js_value list \<Rightarrow> js_value \<Rightarrow> bool \<Rightarrow> wire \<Rightarrow> (error + response) \<times> wire" where
  "putResource srv name entityFields isUpdate sent =
     executeAtomXmlOperation srv
       ((WebResource name [] PUT)\<lparr>req_body := Some entityFields, req_ifMatch := isUpdate\<rparr>)
       sent"

definition getSubscriptionPath :: "js_value \<Rightarrow> js_value \<Rightarrow> js_value list" where
  "getSubscriptionPath topicName subscriptionName =
     [topicName, JString ''/Subscriptions/'', subscriptionName]"

definition getRulePath :: "js_value \<Rightarrow> js_value \<Rightarrow> js_value \<Rightarrow> js_value list" where
  "getRulePath topicName subscriptionName ruleName =
     [topicName, JString ''/Subscriptions/'', subscriptionName, JString ''/Rules/'', ruleName]"


section \<open>One page of a listing\<close>

text \<open>
  The client: the backend it talks to, and two helpers that are not among the
  sources and are taken as parameters, \<^verbatim>\<open>parseURL\<close> of \<^verbatim>\<open>util/parseUrl\<close> and
  \<^verbatim>\<open>isJSONLikeObject\<close> of \<^verbatim>\<open>util/utils\<close>. \<open>parseURL u\<close> is \<open>None\<close> when parsing
  throws, and otherwise the list of the query parameters of the URL
  (\<^verbatim>\<open>searchParams\<close>), in order.
\<close>

record client =
  service :: service
  parseURL :: "js_value \<Rightarrow> (string \<times> string) list option"
  isJSONLikeObject :: "js_value \<Rightarrow> bool"

text \<open>
  The seven listing operations (\<^verbatim>\<open>getQueues\<close>, \<^verbatim>\<open>getQueuesRuntimeProperties\<close>,
  \<^verbatim>\<open>getTopics\<close>, \<^verbatim>\<open>getTopicsRuntimeProperties\<close>, \<^verbatim>\<open>getSubscriptions\<close>,
  \<^verbatim>\<open>getSubscriptionsRuntimeProperties\<close>, \<^verbatim>\<open>getRules\<close>) and their private helpers
  are the same text up to the resource path handed to \<^verbatim>\<open>listResources\<close> and the
  decoder applied to each raw record (\<^verbatim>\<open>buildQueue\<close>,
  \<^verbatim>\<open>buildQueueRuntimeProperties\<close>, \<^verbatim>\<open>buildTopic\<close>, ...). They are modelled once,
  for a listing given by these two: \<open>listEntities\<close> stands for \<^verbatim>\<open>listQueues\<close> and
  its siblings, \<open>buildListResponse\<close> for \<^verbatim>\<open>buildListQueuesResponse\<close>,
  \<open>listEntitiesPage\<close> for \<^verbatim>\<open>listQueuesPage\<close>, \<open>listEntitiesAll\<close> for
  \<^verbatim>\<open>listQueuesAll\<close>, and \<open>getEntities_iter\<close>, \<open>getEntities_next\<close> and
  \<open>getEntities_byPage\<close> for the object that \<^verbatim>\<open>getQueues\<close> returns. The decoders
  live in the serializer modules, which are not among the sources: a decoder is
  a parameter that either throws or returns a value, and a falsy value means
  that no entity was produced.
\<close>

record listing =
  resource :: "js_value list"
  decoder :: "js_value \<Rightarrow> error + js_value"

text \<open>
  \<^verbatim>\<open>EntitiesResponse<T>\<close>: the array of entities with its \<^verbatim>\<open>continuationToken\<close>
  and the underlying \<^verbatim>\<open>_response\<close>.
\<close>

record page =
  entities :: "js_value list"
  continuationToken :: js_value
  underlying :: response

text \<open>
  \<^verbatim>\<open>searchParams.get(name)\<close> is the first value of that name, or \<^verbatim>\<open>null\<close>.
\<close>

definition getMarkerFromNextLinkUrl :: "client \<Rightarrow> js_value \<Rightarrow> error + js_value" where
  "getMarkerFromNextLinkUrl cl url =
     (if \<not> truthy url then Inr JUndefined
      else (case parseURL cl url of
              None \<Rightarrow> Inl Error
            | Some searchParams \<Rightarrow>
                Inr (case map_of searchParams (XML_METADATA_MARKER @ ''skip'') of
                       None \<Rightarrow> JNull
                     | Some v \<Rightarrow> JString v)))"

text \<open>
  The loop \<^verbatim>\<open>for (let i = 0; i < raw.length; i++)\<close> of the
  \<^verbatim>\<open>buildList...Response\<close> functions, with the array built so far.
\<close>

fun decodeRecords ::
  "(js_value \<Rightarrow> error + js_value) \<Rightarrow> js_value list \<Rightarrow> js_value list
   \<Rightarrow> error + js_value list" where
  "decodeRecords build [] acc = Inr acc"
| "decodeRecords build (raw # rest) acc =
     (case build raw of
        Inl e \<Rightarrow> Inl e
      | Inr entity \<Rightarrow>
          decodeRecords build rest (if truthy entity then acc @ [entity] else acc))"

text \<open>The body of the \<^verbatim>\<open>try\<close> block of the \<^verbatim>\<open>buildList...Response\<close> functions.\<close>

definition buildListResponse_try ::
  "client \<Rightarrow> (js_value \<Rightarrow> error + js_value) \<Rightarrow> response \<Rightarrow> error + page" where
  "buildListResponse_try cl build resp =
     (case get_property (parsedBody resp) ''nextLink'' of
        Inl e \<Rightarrow> Inl e
      | Inr link \<Rightarrow>
          (case getMarkerFromNextLinkUrl cl link of
             Inl e \<Rightarrow> Inl e
           | Inr nextMarker \<Rightarrow>
               if \<not> isArray (parsedBody resp) then Inl TypeError
               else (case decodeRecords build (elements (parsedBody resp)) [] of
                       Inl e \<Rightarrow> Inl e
                     | Inr decoded \<Rightarrow>
                         Inr \<lparr>entities = decoded, continuationToken = nextMarker,
                              underlying = resp\<rparr>)))"

text \<open>The \<^verbatim>\<open>catch\<close> clause turns whatever was thrown into the parse error.\<close>

definition parse_error :: "response \<Rightarrow> error" where
  "parse_error resp =
     RestError (Some PARSE_ERROR) (Some (status resp))
       (Some (stripRequest (request resp))) (Some (stripResponse resp))"

definition buildListResponse ::
  "client \<Rightarrow> (js_value \<Rightarrow> error + js_value) \<Rightarrow> response \<Rightarrow> error + page" where
  "buildListResponse cl build resp =
     (case buildListResponse_try cl build resp of
        Inl err \<Rightarrow> Inl (parse_error resp)
      | Inr listResponse \<Rightarrow> Inr listResponse)"

definition buildListQueuesResponse ::
  "client \<Rightarrow> (js_value \<Rightarrow> error + js_value) \<Rightarrow> response \<Rightarrow> error + page" where
  "buildListQueuesResponse cl buildQueue resp = buildListResponse cl buildQueue resp"

definition buildListRulesResponse ::
  "client \<Rightarrow> (js_value \<Rightarrow> error + js_value) \<Rightarrow> response \<Rightarrow> error + page" where
  "buildListRulesResponse cl buildRule resp = buildListResponse cl buildRule resp"

text \<open>
  \<^verbatim>\<open>listQueues(options)\<close> and its six siblings: one request, one decoded page.
\<close>

definition listEntities ::
  "client \<Rightarrow> listing \<Rightarrow> js_number \<Rightarrow> js_number option \<Rightarrow> wire \<Rightarrow> (error + page) \<times> wire" where
  "listEntities cl l skip maxCount sent =
     (case listResources (service cl) (resource l) skip maxCount sent of
        (Inl e, sent') \<Rightarrow> (Inl e, sent')
      | (Inr resp, sent') \<Rightarrow> (buildListResponse cl (decoder l) resp, sent'))"

definition queues :: "(js_value \<Rightarrow> error + js_value) \<Rightarrow> listing" where
  "queues buildQueue = \<lparr>resource = [JString ''$Resources/Queues''], decoder = buildQueue\<rparr>"

definition topics :: "(js_value \<Rightarrow> error + js_value) \<Rightarrow> listing" where
  "topics buildTopic = \<lparr>resource = [JString ''$Resources/Topics''], decoder = buildTopic\<rparr>"

definition subscriptions :: "js_value \<Rightarrow> (js_value \<Rightarrow> error + js_value) \<Rightarrow> listing" where
  "subscriptions topicName buildSubscription =
     \<lparr>resource = [topicName, JString ''/Subscriptions/''], decoder = buildSubscription\<rparr>"

definition rules ::
  "js_value \<Rightarrow> js_value \<Rightarrow> (js_value \<Rightarrow> error + js_value) \<Rightarrow> listing" where
  "rules topicName subscriptionName buildRule =
     \<lparr>resource = getSubscriptionPath topicName subscriptionName @ [JString ''/Rules/''],
      decoder = buildRule\<rparr>"

definition listQueues ::
  "client \<Rightarrow> (js_value \<Rightarrow> error + js_value) \<Rightarrow> js_number \<Rightarrow> js_number option \<Rightarrow> wire
   \<Rightarrow> (error + page) \<times> wire" where
  "listQueues cl buildQueue skip maxCount sent =
     listEntities cl (queues buildQueue) skip maxCount sent"

section \<open>The page iterator and the flat iterator\<close>

text \<open>
  What a call of \<^verbatim>\<open>next()\<close> on an async generator settles to: a value, the end
  of the iteration, or a rejection.
\<close>

datatype 'a iterator_result = Value 'a | Done | Throws error

text \<open>
  \<^verbatim>\<open>listQueuesPage(marker, options)\<close> and its siblings are generators with the
  body \<^verbatim>\<open>do { listResponse = await this.listQueues({skip: Number(marker),
  maxCount: options.maxPageSize, ...options}); marker = listResponse.continuationToken;
  yield listResponse; } while (marker)\<close>. A generator object is either not
  started, suspended at the \<^verbatim>\<open>yield\<close>, or completed; it holds the local
  \<^verbatim>\<open>marker\<close> and the page size of its \<^verbatim>\<open>options\<close>. The other members of
  \<^verbatim>\<open>options\<close> are operation options (abort signal, tracing, request options):
  they have no \<^verbatim>\<open>skip\<close>, no \<^verbatim>\<open>maxCount\<close> and no \<^verbatim>\<open>maxPageSize\<close>, so that the
  spread \<^verbatim>\<open>...options\<close> overrides none of these, and they only travel to the
  transport; they are not modelled.
\<close>

datatype page_generator =
    NotStarted js_value "js_number option"
  | AtYield js_value "js_number option"
  | Completed

definition listEntitiesPage :: "js_value \<Rightarrow> js_number option \<Rightarrow> page_generator" where
  "listEntitiesPage marker maxPageSize = NotStarted marker maxPageSize"

text \<open>One round of the loop body, up to the \<^verbatim>\<open>yield\<close>.\<close>

definition fetch_and_yield ::
  "client \<Rightarrow> listing \<Rightarrow> js_value \<Rightarrow> js_number option \<Rightarrow> wire
   \<Rightarrow> page iterator_result \<times> page_generator \<times> wire" where
  "fetch_and_yield cl l marker maxPageSize sent =
     (case listEntities cl l (Number marker) maxPageSize sent of
        (Inl e, sent') \<Rightarrow> (Throws e, Completed, sent')
      | (Inr listResponse, sent') \<Rightarrow>
          (Value listResponse, AtYield (continuationToken listResponse) maxPageSize, sent'))"

fun listEntitiesPage_next ::
  "client \<Rightarrow> listing \<Rightarrow> page_generator \<Rightarrow> wire
   \<Rightarrow> page iterator_result \<times> page_generator \<times> wire" where
  "listEntitiesPage_next cl l (NotStarted marker maxPageSize) sent =
     fetch_and_yield cl l marker maxPageSize sent"
| "listEntitiesPage_next cl l (AtYield marker maxPageSize) sent =
     (if truthy marker then fetch_and_yield cl l marker maxPageSize sent
      else (Done, Completed, sent))"
| "listEntitiesPage_next cl l Completed sent = (Done, Completed, sent)"

text \<open>
  \<^verbatim>\<open>listQueuesAll(options)\<close> and its siblings: \<^verbatim>\<open>let marker; for await (const
  segment of this.listQueuesPage(marker, options)) { yield* segment; }\<close>. The
  generator object is not started, or suspended inside \<^verbatim>\<open>yield*\<close> with the page
  generator it drives and the elements of the segment still to be re-emitted,
  or completed. Its \<^verbatim>\<open>marker\<close> is never assigned and its \<^verbatim>\<open>options\<close> are the
  operation options, which have no page size.
\<close>

datatype flat_generator =
    FlatNotStarted
  | InSegment page_generator "js_value list"
  | FlatCompleted

definition listEntitiesAll :: flat_generator where
  "listEntitiesAll = FlatNotStarted"

text \<open>
  Asking the page generator for segments until one has an element. The loop
  does not end when the backend keeps answering with empty pages that carry a
  token; then the result is \<open>None\<close>.
\<close>

partial_function (option) nextSegment ::
  "client \<Rightarrow> listing \<Rightarrow> page_generator \<Rightarrow> wire
   \<Rightarrow> (js_value iterator_result \<times> flat_generator \<times> wire) option" where
  "nextSegment cl l pages sent =
     (case listEntitiesPage_next cl l pages sent of
        (Done, pages', sent') \<Rightarrow> Some (Done, FlatCompleted, sent')
      | (Throws e, pages', sent') \<Rightarrow> Some (Throws e, FlatCompleted, sent')
      | (Value segment, pages', sent') \<Rightarrow>
          (case entities segment of
             [] \<Rightarrow> nextSegment cl l pages' sent'
           | x # xs \<Rightarrow> Some (Value x, InSegment pages' xs, sent')))"

fun listEntitiesAll_next ::
  "client \<Rightarrow> listing \<Rightarrow> flat_generator \<Rightarrow> wire
   \<Rightarrow> (js_value iterator_result \<times> flat_generator \<times> wire) option" where
  "listEntitiesAll_next cl l FlatNotStarted sent =
     nextSegment cl l (listEntitiesPage JUndefined None) sent"
| "listEntitiesAll_next cl l (InSegment pages (x # xs)) sent =
     Some (Value x, InSegment pages xs, sent)"
| "listEntitiesAll_next cl l (InSegment pages []) sent = nextSegment cl l pages sent"
| "listEntitiesAll_next cl l FlatCompleted sent = Some (Done, FlatCompleted, sent)"

section \<open>The listing entry point\<close>

text \<open>
  The spec's data model, in its words: a continuation token is "a string that
  must decode to a non-negative integer". This predicate is not part of the
  source; it is what the source's tokens are compared with.
\<close>

definition decodesToNonNegativeInteger :: "js_value \<Rightarrow> bool" where
  "decodesToNonNegativeInteger v =
     (case v of
        JString s \<Rightarrow>
          (case StringToNumber s of
             Finite q \<Rightarrow> 0 \<le> q \<and> q = of_int \<lfloor>q\<rfloor>
           | _ \<Rightarrow> False)
      | _ \<Rightarrow> False)"

definition throwIfInvalidContinuationToken :: "js_value \<Rightarrow> error option" where
  "throwIfInvalidContinuationToken token =
     (if \<not> (token = JUndefined \<or> (isString token \<and> number_ge0 (Number token)))
      then Some Error else None)"

text \<open>
  \<^verbatim>\<open>getQueues(options)\<close> and its siblings return an object with \<^verbatim>\<open>next\<close>, which
  forwards to one flat generator created at the call, and \<^verbatim>\<open>byPage\<close>. \<^verbatim>\<open>byPage\<close>
  is an ordinary function: it checks \<^verbatim>\<open>settings.continuationToken\<close> and returns a
  new page generator, started from that token with \<^verbatim>\<open>settings.maxPageSize\<close>.
\<close>

definition getEntities_iter :: flat_generator where
  "getEntities_iter = listEntitiesAll"

definition getEntities_next ::
  "client \<Rightarrow> listing \<Rightarrow> flat_generator \<Rightarrow> wire
   \<Rightarrow> (js_value iterator_result \<times> flat_generator \<times> wire) option" where
  "getEntities_next cl l iter sent = listEntitiesAll_next cl l iter sent"

definition getEntities_byPage ::
  "js_value \<Rightarrow> js_number option \<Rightarrow> wire \<Rightarrow> (error + page_generator) \<times> wire" where
  "getEntities_byPage token maxPageSize sent =
     (case throwIfInvalidContinuationToken token of
        Some e \<Rightarrow> (Inl e, sent)
      | None \<Rightarrow> (Inr (listEntitiesPage token maxPageSize), sent))"

section \<open>Consuming an iterator\<close>

text \<open>
  How an iteration ended after a number of calls of \<^verbatim>\<open>next()\<close>: the iterator
  was exhausted, it threw, or the consumer stopped calling.
\<close>

datatype outcome = Finished | Failed error | Stopped

text \<open>
  The consumer's loop \<^verbatim>\<open>for await (const page of iterator.byPage(...))\<close>, cut
  after \<open>n\<close> calls of \<^verbatim>\<open>next()\<close>: the pages received, how it ended, the generator
  and the requests sent.
\<close>

fun pagesReceived ::
  "nat \<Rightarrow> client \<Rightarrow> listing \<Rightarrow> page_generator \<Rightarrow> wire
   \<Rightarrow> page list \<times> outcome \<times> page_generator \<times> wire" where
  "pagesReceived 0 cl l pages sent = ([], Stopped, pages, sent)"
| "pagesReceived (Suc n) cl l pages sent =
     (case listEntitiesPage_next cl l pages sent of
        (Done, pages', sent') \<Rightarrow> ([], Finished, pages', sent')
      | (Throws e, pages', sent') \<Rightarrow> ([], Failed e, pages', sent')
      | (Value p, pages', sent') \<Rightarrow>
          (case pagesReceived n cl l pages' sent' of
             (ps, out, pages'', sent'') \<Rightarrow> (p # ps, out, pages'', sent'')))"

text \<open>
  The consumer's loop \<^verbatim>\<open>for await (const entity of iterator)\<close>, cut after \<open>n\<close>
  calls of \<^verbatim>\<open>next()\<close>; \<open>None\<close> when one of the calls never settles.
\<close>

fun elementsReceived ::
  "nat \<Rightarrow> client \<Rightarrow> listing \<Rightarrow> flat_generator \<Rightarrow> wire
   \<Rightarrow> (js_value list \<times> outcome \<times> flat_generator \<times> wire) option" where
  "elementsReceived 0 cl l iter sent = Some ([], Stopped, iter, sent)"
| "elementsReceived (Suc n) cl l iter sent =
     (case getEntities_next cl l iter sent of
        None \<Rightarrow> None
      | Some (Done, iter', sent') \<Rightarrow> Some ([], Finished, iter', sent')
      | Some (Throws e, iter', sent') \<Rightarrow> Some ([], Failed e, iter', sent')
      | Some (Value x, iter', sent') \<Rightarrow>
          (case elementsReceived n cl l iter' sent' of
             None \<Rightarrow> None
           | Some (xs, out, iter'', sent'') \<Rightarrow> Some (x # xs, out, iter'', sent'')))"


section \<open>Single entities\<close>

text \<open>
  \<^verbatim>\<open>buildQueueResponse\<close>, \<^verbatim>\<open>buildTopicResponse\<close>,
  \<^verbatim>\<open>buildSubscriptionRuntimePropertiesResponse\<close> and \<^verbatim>\<open>buildRuleResponse\<close>: the
  decoder is applied to the parsed body, \<^verbatim>\<open>Object.assign(entity || {}, {_response:
  response})\<close> pairs the entity with the response, and whatever is thrown becomes
  the parse error.
\<close>

definition buildEntityResponse ::
  "(js_value \<Rightarrow> error + js_value) \<Rightarrow> response \<Rightarrow> error + js_value \<times> response" where
  "buildEntityResponse build resp =
     (case build (parsedBody resp) of
        Inl err \<Rightarrow> Inl (parse_error resp)
      | Inr entity \<Rightarrow> Inr (if truthy entity then entity else JObject [], resp))"

definition buildQueueResponse ::
  "(js_value \<Rightarrow> error + js_value) \<Rightarrow> response \<Rightarrow> error + js_value \<times> response" where
  "buildQueueResponse buildQueue resp = buildEntityResponse buildQueue resp"

definition buildTopicResponse ::
  "(js_value \<Rightarrow> error + js_value) \<Rightarrow> response \<Rightarrow> error + js_value \<times> response" where
  "buildTopicResponse buildTopic resp = buildEntityResponse buildTopic resp"

definition buildSubscriptionResponse ::
  "(js_value \<Rightarrow> error + js_value) \<Rightarrow> response \<Rightarrow> error + js_value \<times> response" where
  "buildSubscriptionResponse buildSubscription resp = buildEntityResponse buildSubscription resp"

definition buildSubscriptionRuntimePropertiesResponse ::
  "(js_value \<Rightarrow> error + js_value) \<Rightarrow> response \<Rightarrow> error + js_value \<times> response" where
  "buildSubscriptionRuntimePropertiesResponse buildSubscriptionRuntimeProperties resp =
     buildEntityResponse buildSubscriptionRuntimeProperties resp"

definition buildRuleResponse ::
  "(js_value \<Rightarrow> error + js_value) \<Rightarrow> response \<Rightarrow> error + js_value \<times> response" where
  "buildRuleResponse buildRule resp = buildEntityResponse buildRule resp"

definition getQueue ::
  "client \<Rightarrow> (js_value \<Rightarrow> error + js_value) \<Rightarrow> js_value \<Rightarrow> wire
   \<Rightarrow> (error + js_value \<times> response) \<times> wire" where
  "getQueue cl buildQueue queueName sent =
     (case getResource (service cl) [queueName] sent of
        (Inl e, sent') \<Rightarrow> (Inl e, sent')
      | (Inr resp, sent') \<Rightarrow> (buildQueueResponse buildQueue resp, sent'))"

definition getTopic ::
  "client \<Rightarrow> (js_value \<Rightarrow> error + js_value) \<Rightarrow> js_value \<Rightarrow> wire
   \<Rightarrow> (error + js_value \<times> response) \<times> wire" where
  "getTopic cl buildTopic topicName sent =
     (case getResource (service cl) [topicName] sent of
        (Inl e, sent') \<Rightarrow> (Inl e, sent')
      | (Inr resp, sent') \<Rightarrow> (buildTopicResponse buildTopic resp, sent'))"

text \<open>
  \<^verbatim>\<open>getSubscription\<close> decodes with
  \<^verbatim>\<open>buildSubscriptionRuntimePropertiesResponse\<close> in the source.
\<close>

definition getSubscription ::
  "client \<Rightarrow> (js_value \<Rightarrow> error + js_value) \<Rightarrow> js_value \<Rightarrow> js_value \<Rightarrow> wire
   \<Rightarrow> (error + js_value \<times> response) \<times> wire" where
  "getSubscription cl buildSubscriptionRuntimeProperties topicName subscriptionName sent =
     (let fullPath = getSubscriptionPath topicName subscriptionName
      in case getResource (service cl) fullPath sent of
           (Inl e, sent') \<Rightarrow> (Inl e, sent')
         | (Inr resp, sent') \<Rightarrow>
             (buildSubscriptionRuntimePropertiesResponse
                buildSubscriptionRuntimeProperties resp, sent'))"

definition getRule ::
  "client \<Rightarrow> (js_value \<Rightarrow> error + js_value) \<Rightarrow> js_value \<Rightarrow> js_value \<Rightarrow> js_value
   \<Rightarrow> wire \<Rightarrow> (error + js_value \<times> response) \<times> wire" where
  "getRule cl buildRule topicName subscriptionName ruleName sent =
     (let fullPath = getRulePath topicName subscriptionName ruleName
      in case getResource (service cl) fullPath sent of
           (Inl e, sent') \<Rightarrow> (Inl e, sent')
         | (Inr resp, sent') \<Rightarrow> (buildRuleResponse buildRule resp, sent'))"

text \<open>
  \<^verbatim>\<open>try { await this.getQueue(...) } catch (error) { if (error.code ==
  "MessageEntityNotFoundError") return false; throw error; } return true\<close>.
\<close>

definition queueExists ::
  "client \<Rightarrow> (js_value \<Rightarrow> error + js_value) \<Rightarrow> js_value \<Rightarrow> wire
   \<Rightarrow> (error + bool) \<times> wire" where
  "queueExists cl buildQueue queueName sent =
     (case getQueue cl buildQueue queueName sent of
        (Inl e, sent') \<Rightarrow>
          if error_code e = Some MessageEntityNotFoundError then (Inr False, sent')
          else (Inl e, sent')
      | (Inr r, sent') \<Rightarrow> (Inr True, sent'))"

definition topicExists ::
  "client \<Rightarrow> (js_value \<Rightarrow> error + js_value) \<Rightarrow> js_value \<Rightarrow> wire
   \<Rightarrow> (error + bool) \<times> wire" where
  "topicExists cl buildTopic topicName sent =
     (case getTopic cl buildTopic topicName sent of
        (Inl e, sent') \<Rightarrow>
          if error_code e = Some MessageEntityNotFoundError then (Inr False, sent')
          else (Inl e, sent')
      | (Inr r, sent') \<Rightarrow> (Inr True, sent'))"

definition subscriptionExists ::
  "client \<Rightarrow> (js_value \<Rightarrow> error + js_value) \<Rightarrow> js_value \<Rightarrow> js_value \<Rightarrow> wire
   \<Rightarrow> (error + bool) \<times> wire" where
  "subscriptionExists cl buildSubscriptionRuntimeProperties topicName subscriptionName sent =
     (case getSubscription cl buildSubscriptionRuntimeProperties topicName subscriptionName sent of
        (Inl e, sent') \<Rightarrow>
          if error_code e = Some MessageEntityNotFoundError then (Inr False, sent')
          else (Inl e, sent')
      | (Inr r, sent') \<Rightarrow> (Inr True, sent'))"

section \<open>Updates\<close>

text \<open>
  The four update operations first write a log line whose template reads the
  name of the argument (\<^verbatim>\<open>queue.name\<close>, \<^verbatim>\<open>topic.name\<close>,
  \<^verbatim>\<open>subscription.subscriptionName\<close>, \<^verbatim>\<open>rule.name\<close>); on \<^verbatim>\<open>undefined\<close> and \<^verbatim>\<open>null\<close>
  that read already throws a \<^verbatim>\<open>TypeError\<close>. Then come the two checks of the
  source, and only then the request. The option builders
  (\<^verbatim>\<open>buildQueueOptions\<close>, ...) belong to the serializer modules and are parameters
  that throw or return the request body. \<^verbatim>\<open>x == null\<close> holds of \<^verbatim>\<open>undefined\<close> and
  \<^verbatim>\<open>null\<close>, \<^verbatim>\<open>x === null\<close> of \<^verbatim>\<open>null\<close> only.
\<close>

definition updateQueue ::
  "client \<Rightarrow> (js_value \<Rightarrow> error + js_value) \<Rightarrow> (js_value \<Rightarrow> error + js_value)
   \<Rightarrow> js_value \<Rightarrow> wire \<Rightarrow> (error + js_value \<times> response) \<times> wire" where
  "updateQueue cl buildQueueOptions buildQueue queue sent =
     (case get_property queue ''name'' of
        Inl e \<Rightarrow> (Inl e, sent)
      | Inr name \<Rightarrow>
          if \<not> isJSONLikeObject cl queue \<or> (queue = JUndefined \<or> queue = JNull)
          then (Inl TypeError, sent)
          else if \<not> truthy name then (Inl TypeError, sent)
          else (case buildQueueOptions queue of
                  Inl e \<Rightarrow> (Inl e, sent)
                | Inr entityFields \<Rightarrow>
                    (case putResource (service cl) [name] entityFields True sent of
                       (Inl e, sent') \<Rightarrow> (Inl e, sent')
                     | (Inr resp, sent') \<Rightarrow> (buildQueueResponse buildQueue resp, sent'))))"

definition updateTopic ::
  "client \<Rightarrow> (js_value \<Rightarrow> error + js_value) \<Rightarrow> (js_value \<Rightarrow> error + js_value)
   \<Rightarrow> js_value \<Rightarrow> wire \<Rightarrow> (error + js_value \<times> response) \<times> wire" where
  "updateTopic cl buildTopicOptions buildTopic topic sent =
     (case get_property topic ''name'' of
        Inl e \<Rightarrow> (Inl e, sent)
      | Inr name \<Rightarrow>
          if \<not> isJSONLikeObject cl topic \<or> (topic = JUndefined \<or> topic = JNull)
          then (Inl TypeError, sent)
          else if \<not> truthy name then (Inl TypeError, sent)
          else (case buildTopicOptions topic of
                  Inl e \<Rightarrow> (Inl e, sent)
                | Inr entityFields \<Rightarrow>
                    (case putResource (service cl) [name] entityFields True sent of
                       (Inl e, sent') \<Rightarrow> (Inl e, sent')
                     | (Inr resp, sent') \<Rightarrow> (buildTopicResponse buildTopic resp, sent'))))"

definition updateSubscription ::
  "client \<Rightarrow> (js_value \<Rightarrow> error + js_value) \<Rightarrow> (js_value \<Rightarrow> error + js_value)
   \<Rightarrow> js_value \<Rightarrow> wire \<Rightarrow> (error + js_value \<times> response) \<times> wire" where
  "updateSubscription cl buildSubscriptionOptions buildSubscription subscription sent =
     (case get_property subscription ''subscriptionName'' of
        Inl e \<Rightarrow> (Inl e, sent)
      | Inr subscriptionName \<Rightarrow>
          if \<not> isJSONLikeObject cl subscription
             \<or> (subscription = JUndefined \<or> subscription = JNull)
          then (Inl TypeError, sent)
          else (case get_property subscription ''topicName'' of
                  Inl e \<Rightarrow> (Inl e, sent)
                | Inr topicName \<Rightarrow>
                    if \<not> truthy topicName \<or> \<not> truthy subscriptionName
                    then (Inl TypeError, sent)
                    else
                      let fullPath = getSubscriptionPath topicName subscriptionName
                      in (case buildSubscriptionOptions subscription of
                            Inl e \<Rightarrow> (Inl e, sent)
                          | Inr entityFields \<Rightarrow>
                              (case putResource (service cl) fullPath entityFields True sent of
                                 (Inl e, sent') \<Rightarrow> (Inl e, sent')
                               | (Inr resp, sent') \<Rightarrow>
                                   (buildSubscriptionResponse buildSubscription resp, sent')))))"

definition updateRule ::
  "client \<Rightarrow> (js_value \<Rightarrow> error + js_value) \<Rightarrow> js_value \<Rightarrow> js_value
   \<Rightarrow> js_value \<Rightarrow> wire \<Rightarrow> (error + js_value \<times> response) \<times> wire" where
  "updateRule cl buildRule topicName subscriptionName rule sent =
     (case get_property rule ''name'' of
        Inl e \<Rightarrow> (Inl e, sent)
      | Inr name \<Rightarrow>
          if \<not> isJSONLikeObject cl rule \<or> rule = JNull
          then (Inl TypeError, sent)
          else if \<not> truthy name then (Inl TypeError, sent)
          else
            let fullPath = getRulePath topicName subscriptionName name
            in (case putResource (service cl) fullPath rule True sent of
                  (Inl e, sent') \<Rightarrow> (Inl e, sent')
                | (Inr resp, sent') \<Rightarrow> (buildRuleResponse buildRule resp, sent')))"

section \<open>A fake backend for the examples\<close>

text \<open>
  A stand-in for \<^verbatim>\<open>parseURL\<close> in the examples: an absolute \<^verbatim>\<open>http\<close> or \<^verbatim>\<open>https\<close>
  URL given as a string is split at the first \<^verbatim>\<open>?\<close>, its query at every \<^verbatim>\<open>&\<close>
  and each parameter at its first \<^verbatim>\<open>=\<close>; anything else throws.
\<close>

fun splitOn :: "char \<Rightarrow> string \<Rightarrow> string list" where
  "splitOn c [] = [[]]"
| "splitOn c (x # xs) =
     (if x = c then [] # splitOn c xs
      else (case splitOn c xs of [] \<Rightarrow> [[x]] | w # ws \<Rightarrow> (x # w) # ws))"

definition keyValue :: "string \<Rightarrow> string \<times> string" where
  "keyValue kv =
     (takeWhile (\<lambda>c. c \<noteq> CHR ''='') kv, drop 1 (dropWhile (\<lambda>c. c \<noteq> CHR ''='') kv))"

definition isPrefixOf :: "string \<Rightarrow> string \<Rightarrow> bool" where
  "isPrefixOf p s = (take (length p) s = p)"

definition simpleParseURL :: "js_value \<Rightarrow> (string \<times> string) list option" where
  "simpleParseURL url =
     (case url of
        JString u \<Rightarrow>
          if isPrefixOf ''https://'' u \<or> isPrefixOf ''http://'' u
          then (case drop 1 (dropWhile (\<lambda>c. c \<noteq> CHR ''?'') u) of
                  [] \<Rightarrow> Some []
                | c # q \<Rightarrow> Some (map keyValue (splitOn CHR ''&'' (c # q))))
          else None
      | _ \<Rightarrow> None)"

text \<open>
  The backend of the spec's example: the records A, B, C, D, E served two at a
  time, each page but the last with a next link that carries the offset of the
  following page.
\<close>

definition queueRecord :: "string \<Rightarrow> js_value" where
  "queueRecord n = JObject [(''QueueName'', JString n)]"

definition listOf :: "request \<Rightarrow> js_value list \<Rightarrow> js_value \<Rightarrow> error + response" where
  "listOf req records link = Inr \<lparr>status = 200, request = req, parsedBody = JArray records link\<rparr>"

definition linkTo2 :: js_value where
  "linkTo2 = JString ''https://sb.example/$Resources/Queues?api-version=2017-04&$skip=2&$top=2''"

definition linkTo4 :: js_value where
  "linkTo4 = JString ''https://sb.example/$Resources/Queues?api-version=2017-04&$skip=4&$top=2''"

definition fiveQueues :: service where
  "fiveQueues req =
     (case map_of (req_query req) ''$skip'' of
        None \<Rightarrow> listOf req [queueRecord ''A'', queueRecord ''B''] linkTo2
      | Some k \<Rightarrow>
          if k = Finite 2 then listOf req [queueRecord ''C'', queueRecord ''D''] linkTo4
          else if k = Finite 4 then listOf req [queueRecord ''E''] JUndefined
          else listOf req [] JUndefined)"

text \<open>
  A backend that reads \<^verbatim>\<open>$top\<close> as the number of records wanted in all: asked
  with \<^verbatim>\<open>$top\<close> it answers with the first record, asked without it with both
  records, and never with a next link.
\<close>

definition cappedQueues :: service where
  "cappedQueues req =
     (case map_of (req_query req) ''$top'' of
        None \<Rightarrow> listOf req [queueRecord ''A'', queueRecord ''B''] JUndefined
      | Some k \<Rightarrow> listOf req [queueRecord ''A''] JUndefined)"




text \<open>A decoder that returns the raw record as the entity.\<close>

fun rawEntity :: "js_value \<Rightarrow> error + js_value" where
  "rawEntity raw = Inr raw"

text \<open>A stand-in for \<^verbatim>\<open>isJSONLikeObject\<close>: true of the plain data objects only.\<close>

fun isPlainObject :: "js_value \<Rightarrow> bool" where
  "isPlainObject (JObject fs) = True"
| "isPlainObject v = False"



text \<open>The requests of the three pages, and the pages as decoded.\<close>

definition pageRequest :: "(string \<times> js_number) list \<Rightarrow> request" where
  "pageRequest q = WebResource [JString ''$Resources/Queues''] q GET"

definition decodedPage :: "(string \<times> js_number) list \<Rightarrow> js_value list \<Rightarrow> js_value \<Rightarrow> js_value \<Rightarrow> page" where
  "decodedPage q records link token =
     \<lparr>entities = records, continuationToken = token,
      underlying = \<lparr>status = 200, request = pageRequest q, parsedBody = JArray records link\<rparr>\<rparr>"

definition pageAB :: page where
  "pageAB = decodedPage [] [queueRecord ''A'', queueRecord ''B''] linkTo2 (JString ''2'')"

definition pageCD :: page where
  "pageCD =
     decodedPage [(''$skip'', Finite 2)] [queueRecord ''C'', queueRecord ''D''] linkTo4 (JString ''4'')"

definition pageE :: page where
  "pageE = decodedPage [(''$skip'', Finite 4)] [queueRecord ''E''] JUndefined JUndefined"



text \<open>A backend that answers every request with the same status and body.\<close>

definition answering :: "nat \<Rightarrow> js_value \<Rightarrow> service" where
  "answering st b req = Inr \<lparr>status = st, request = req, parsedBody = b\<rparr>"

text \<open>A backend on which every request fails with the same error.\<close>

definition failing :: "error \<Rightarrow> service" where
  "failing e req = Inl e"

definition clientOf :: "service \<Rightarrow> client" where
  "clientOf srv = \<lparr>service = srv, parseURL = simpleParseURL, isJSONLikeObject = isPlainObject\<rparr>"

definition fakeClient :: client where
  "fakeClient = clientOf fiveQueues"

text \<open>
  A decoder that throws on \<^verbatim>\<open>null\<close> (reading a property of it), returns a data
  object as it is and produces nothing for any other record.
\<close>

fun pickyDecoder :: "js_value \<Rightarrow> error + js_value" where
  "pickyDecoder JNull = Inl TypeError"
| "pickyDecoder (JObject fs) = Inr (JObject fs)"
| "pickyDecoder v = Inr JUndefined"

section \<open>The requests sent do not depend on the earlier ones\<close>

lemma WebResource_fields:
  "req_method (WebResource p q m) = m" "req_path (WebResource p q m) = p"
  "req_query (WebResource p q m) = q" "req_body (WebResource p q m) = None"
  "req_ifMatch (WebResource p q m) = False"
  by (simp_all add: WebResource_def)

lemma executeAtomXmlOperation_wire:
  "executeAtomXmlOperation srv req sent = (srv req, sent @ [req])"
  by (simp add: executeAtomXmlOperation_def)






section \<open>The flat iterator re-emits the pages\<close>

lemma elementsReceived_buffer:
  "elementsReceived (length buf + n) cl l (InSegment g buf) sent =
     map_option (\<lambda>(xs, out, it, s). (buf @ xs, out, it, s))
       (elementsReceived n cl l (InSegment g []) sent)"
proof (induction buf)
  case Nil
  show ?case by (simp add: option.map_ident case_prod_beta)
next
  case (Cons x xs)
  show ?case
    using Cons.IH
    by (cases "elementsReceived n cl l (InSegment g []) sent")
       (auto simp: getEntities_next_def)
qed

lemma getEntities_next_segment:
  assumes "listEntitiesPage_next cl l g sent = (Value p, g', sent')"
  shows "getEntities_next cl l (InSegment g []) sent =
         getEntities_next cl l (InSegment g' (entities p)) sent'"
  using assms
  by (cases "entities p")
     (simp_all add: getEntities_next_def nextSegment.simps [of cl l g sent]
        nextSegment.simps [of cl l g' sent'])

lemma elementsReceived_segment:
  assumes "listEntitiesPage_next cl l g sent = (Value p, g', sent')"
  shows "elementsReceived (Suc m) cl l (InSegment g []) sent =
         elementsReceived (Suc m) cl l (InSegment g' (entities p)) sent'"
  using getEntities_next_segment [OF assms] by simp

lemma elementsReceived_start:
  "elementsReceived (Suc m) cl l getEntities_iter sent =
   elementsReceived (Suc m) cl l (InSegment (listEntitiesPage JUndefined None) []) sent"
  by (simp add: getEntities_next_def getEntities_iter_def listEntitiesAll_def)

lemma flat_finished:
  "pagesReceived n cl l g sent = (ps, out, g', sent') \<Longrightarrow> out \<noteq> Stopped \<Longrightarrow>
   elementsReceived (Suc (length (concat (map entities ps)))) cl l (InSegment g []) sent =
     Some (concat (map entities ps), out, FlatCompleted, sent')"
proof (induction n arbitrary: g sent ps)
  case 0
  then show ?case by simp
next
  case (Suc n)
  obtain r g1 s1 where step: "listEntitiesPage_next cl l g sent = (r, g1, s1)"
    by (cases "listEntitiesPage_next cl l g sent") auto
  show ?case
  proof (cases r)
    case Done
    with step Suc.prems show ?thesis
      by (auto simp: getEntities_next_def nextSegment.simps [of cl l g sent])
  next
    case (Throws e)
    with step Suc.prems show ?thesis
      by (auto simp: getEntities_next_def nextSegment.simps [of cl l g sent])
  next
    case (Value p)
    obtain ps1 out1 g2 s2 where rest: "pagesReceived n cl l g1 s1 = (ps1, out1, g2, s2)"
      by (cases "pagesReceived n cl l g1 s1") auto
    from Suc.prems(1) step Value rest
    have eqs: "ps = p # ps1" "out1 = out" "g2 = g'" "s2 = sent'" by auto
    have ih: "elementsReceived (Suc (length (concat (map entities ps1)))) cl l (InSegment g1 []) s1 =
              Some (concat (map entities ps1), out, FlatCompleted, sent')"
      using Suc.IH [of g1 s1 ps1] rest eqs Suc.prems(2) by simp
    have "elementsReceived (Suc (length (concat (map entities ps)))) cl l (InSegment g []) sent =
          elementsReceived (Suc (length (concat (map entities ps)))) cl l
            (InSegment g1 (entities p)) s1"
      using elementsReceived_segment step Value by blast
    also have "Suc (length (concat (map entities ps))) =
               length (entities p) + Suc (length (concat (map entities ps1)))"
      using eqs by simp
    also have "elementsReceived (length (entities p) + Suc (length (concat (map entities ps1))))
                 cl l (InSegment g1 (entities p)) s1 =
               Some (entities p @ concat (map entities ps1), out, FlatCompleted, sent')"
      by (simp only: elementsReceived_buffer ih) simp
    finally show ?thesis using eqs by simp
  qed
qed

lemma flat_prefix:
  "pagesReceived n cl l g sent = (ps, out, g', sent') \<Longrightarrow>
   \<exists>it s. elementsReceived (length (concat (map entities ps))) cl l (InSegment g []) sent =
     Some (concat (map entities ps), Stopped, it, s)"
proof (induction n arbitrary: g sent ps)
  case 0
  then show ?case by simp
next
  case (Suc n)
  obtain r g1 s1 where step: "listEntitiesPage_next cl l g sent = (r, g1, s1)"
    by (cases "listEntitiesPage_next cl l g sent") auto
  show ?case
  proof (cases r)
    case Done
    with step Suc.prems show ?thesis by auto
  next
    case (Throws e)
    with step Suc.prems show ?thesis by auto
  next
    case (Value p)
    obtain ps1 out1 g2 s2 where rest: "pagesReceived n cl l g1 s1 = (ps1, out1, g2, s2)"
      by (cases "pagesReceived n cl l g1 s1") auto
    from Suc.prems(1) step Value rest
    have eqs: "ps = p # ps1" "out1 = out" "g2 = g'" "s2 = sent'" by auto
    obtain it s where ih:
      "elementsReceived (length (concat (map entities ps1))) cl l (InSegment g1 []) s1 =
         Some (concat (map entities ps1), Stopped, it, s)"
      using Suc.IH [of g1 s1 ps1] rest eqs by auto
    show ?thesis
    proof (cases "length (concat (map entities ps))")
      case 0
      then have c: "concat (map entities ps) = []" by simp
      show ?thesis unfolding c by simp
    next
      case (Suc m)
      have "elementsReceived (Suc m) cl l (InSegment g []) sent =
            elementsReceived (Suc m) cl l (InSegment g1 (entities p)) s1"
        using elementsReceived_segment step Value by blast
      also have "Suc m = length (entities p) + length (concat (map entities ps1))"
        using Suc eqs by simp
      also have "elementsReceived (length (entities p) + length (concat (map entities ps1)))
                   cl l (InSegment g1 (entities p)) s1 =
                 Some (entities p @ concat (map entities ps1), Stopped, it, s)"
        by (simp only: elementsReceived_buffer ih) simp
      finally show ?thesis using eqs Suc by simp
    qed
  qed
qed


section \<open>Evaluating the example backend\<close>

lemma clientOf_fields:
  "service (clientOf srv) = srv" "parseURL (clientOf srv) = simpleParseURL"
  "isJSONLikeObject (clientOf srv) = isPlainObject"
  by (simp_all add: clientOf_def)

lemma skip_key: "XML_METADATA_MARKER @ ''skip'' = ''$skip''"
  by (simp add: XML_METADATA_MARKER_def)

lemma parse_linkTo2:
  "simpleParseURL linkTo2 = Some [(''api-version'', ''2017-04''), (''$skip'', ''2''), (''$top'', ''2'')]"
  by (simp add: linkTo2_def simpleParseURL_def isPrefixOf_def keyValue_def)

lemma parse_linkTo4:
  "simpleParseURL linkTo4 = Some [(''api-version'', ''2017-04''), (''$skip'', ''4''), (''$top'', ''2'')]"
  by (simp add: linkTo4_def simpleParseURL_def isPrefixOf_def keyValue_def)

lemmas StringToNumber_defs =
  StringToNumber_def trim_def isWhiteSpace_def NonDecimalIntegerLiteral_def
  StrUnsignedDecimalLiteral_def ExponentDigits_def allDigits_def isDigitIn_def digit_of_def
  digitsValue_def scale10_def negate_def

lemma Number_2: "Number (JString ''2'') = Finite 2"
  by (simp add: StringToNumber_defs)

lemma Number_4: "Number (JString ''4'') = Finite 4"
  by (simp add: StringToNumber_defs)

lemma truthy_2: "number_truthy (Finite 2)"
  by (simp add: number_truthy_def rounds_to_zero_def)

lemma truthy_4: "number_truthy (Finite 4)"
  by (simp add: number_truthy_def rounds_to_zero_def)

lemma fake_parseURL: "parseURL fakeClient = simpleParseURL"
  by (simp add: fakeClient_def clientOf_def)

lemma marker_linkTo2: "getMarkerFromNextLinkUrl fakeClient linkTo2 = Inr (JString ''2'')"
  by (simp add: getMarkerFromNextLinkUrl_def fake_parseURL parse_linkTo2 skip_key)
     (simp add: linkTo2_def)

lemma marker_linkTo4: "getMarkerFromNextLinkUrl fakeClient linkTo4 = Inr (JString ''4'')"
  by (simp add: getMarkerFromNextLinkUrl_def fake_parseURL parse_linkTo4 skip_key)
     (simp add: linkTo4_def)

lemma marker_none: "getMarkerFromNextLinkUrl cl JUndefined = Inr JUndefined"
  by (simp add: getMarkerFromNextLinkUrl_def)

lemma fake_service: "service fakeClient = fiveQueues"
  by (simp add: fakeClient_def clientOf_def)

lemma truthy_queueRecord: "truthy (queueRecord n)"
  by (simp add: queueRecord_def)

lemmas fetch_defs =
  fetch_and_yield_def listEntities_def listResources_def executeAtomXmlOperation_def
  buildListResponse_def buildListResponse_try_def queues_def listOf_def
  pageRequest_def decodedPage_def fake_service fiveQueues_def Let_def truthy_queueRecord
  WebResource_fields

lemma stepAB:
  "fetch_and_yield fakeClient (queues rawEntity) JUndefined None sent =
     (Value pageAB, AtYield (JString ''2'') None, sent @ [pageRequest []])"
  by (simp add: fetch_defs number_truthy_def marker_linkTo2 pageAB_def)

lemma stepCD:
  "fetch_and_yield fakeClient (queues rawEntity) (JString ''2'') None sent =
     (Value pageCD, AtYield (JString ''4'') None, sent @ [pageRequest [(''$skip'', Finite 2)]])"
  by (simp add: fetch_defs Number_2 truthy_2 skip_key marker_linkTo4 pageCD_def del: Number.simps)

lemma stepE:
  "fetch_and_yield fakeClient (queues rawEntity) (JString ''4'') None sent =
     (Value pageE, AtYield JUndefined None, sent @ [pageRequest [(''$skip'', Finite 4)]])"
  by (simp add: fetch_defs Number_4 truthy_4 skip_key marker_none pageE_def del: Number.simps)

lemma run_from_start:
  "pagesReceived 4 fakeClient (queues rawEntity) (listEntitiesPage JUndefined None) [] =
     ([pageAB, pageCD, pageE], Finished, Completed,
      [pageRequest [], pageRequest [(''$skip'', Finite 2)], pageRequest [(''$skip'', Finite 4)]])"
  by (simp add: eval_nat_numeral listEntitiesPage_def stepAB stepCD stepE)

lemma run_from_2:
  "pagesReceived 3 fakeClient (queues rawEntity) (listEntitiesPage (JString ''2'') None) [] =
     ([pageCD, pageE], Finished, Completed,
      [pageRequest [(''$skip'', Finite 2)], pageRequest [(''$skip'', Finite 4)]])"
  by (simp add: eval_nat_numeral listEntitiesPage_def stepCD stepE)


section \<open>Flat mode and page mode\<close>

lemma flat_from_start:
  "elementsReceived 6 fakeClient (queues rawEntity) getEntities_iter [] =
     Some (map queueRecord [''A'', ''B'', ''C'', ''D'', ''E''], Finished, FlatCompleted,
       [pageRequest [], pageRequest [(''$skip'', Finite 2)], pageRequest [(''$skip'', Finite 4)]])"
proof -
  have "elementsReceived (Suc (length (concat (map entities [pageAB, pageCD, pageE]))))
          fakeClient (queues rawEntity) (InSegment (listEntitiesPage JUndefined None) []) [] =
        Some (concat (map entities [pageAB, pageCD, pageE]), Finished, FlatCompleted,
          [pageRequest [], pageRequest [(''$skip'', Finite 2)], pageRequest [(''$skip'', Finite 4)]])"
    by (rule flat_finished [OF run_from_start]) simp
  moreover have "Suc (length (concat (map entities [pageAB, pageCD, pageE]))) = Suc 5"
    by (simp add: pageAB_def pageCD_def pageE_def decodedPage_def)
  moreover have "concat (map entities [pageAB, pageCD, pageE]) =
                 map queueRecord [''A'', ''B'', ''C'', ''D'', ''E'']"
    by (simp add: pageAB_def pageCD_def pageE_def decodedPage_def)
  moreover have "(6::nat) = Suc 5" by simp
  ultimately show ?thesis
    by (simp only: elementsReceived_start)
qed

text \<open>
  Claim C1, as amended. The flat iterator of a listing takes neither a starting
  token nor a page size: it always drives a page generator started with no
  marker and no page size, which is the generator \<^verbatim>\<open>byPage()\<close> returns for the
  default settings. For every backend, decoder and start of the wire: whatever
  pages the consumer of that \<^verbatim>\<open>byPage()\<close> iteration has received after \<open>n\<close> calls
  of \<^verbatim>\<open>next()\<close>, the flat iterator yields exactly the concatenation of their
  elements, in order, as its first elements; and when the page iteration has
  ended (exhausted, or with an error), the flat iteration ends in the same way
  right after these elements, having sent the same requests.
\<close>

theorem flat_is_concatenation_of_default_pages:
  assumes "pagesReceived n cl l (listEntitiesPage JUndefined None) sent = (ps, out, pages', sent')"
  shows "getEntities_byPage JUndefined None sent = (Inr (listEntitiesPage JUndefined None), sent) \<and>
         (\<exists>iter s. elementsReceived (length (concat (map entities ps))) cl l getEntities_iter sent =
                     Some (concat (map entities ps), Stopped, iter, s)) \<and>
         (out \<noteq> Stopped \<longrightarrow>
            elementsReceived (Suc (length (concat (map entities ps)))) cl l getEntities_iter sent =
              Some (concat (map entities ps), out, FlatCompleted, sent'))"
proof (intro conjI impI)
  show "getEntities_byPage JUndefined None sent = (Inr (listEntitiesPage JUndefined None), sent)"
    by (simp add: getEntities_byPage_def throwIfInvalidContinuationToken_def)
next
  show "\<exists>iter s. elementsReceived (length (concat (map entities ps))) cl l getEntities_iter sent =
                  Some (concat (map entities ps), Stopped, iter, s)"
  proof (cases "length (concat (map entities ps))")
    case 0
    then have c: "concat (map entities ps) = []" by simp
    show ?thesis unfolding c by simp
  next
    case (Suc m)
    obtain it s where
      "elementsReceived (length (concat (map entities ps))) cl l
         (InSegment (listEntitiesPage JUndefined None) []) sent =
       Some (concat (map entities ps), Stopped, it, s)"
      using flat_prefix [OF assms] by blast
    then show ?thesis
      unfolding Suc by (simp only: elementsReceived_start) blast
  qed
next
  assume ended: "out \<noteq> Stopped"
  have "elementsReceived (Suc (length (concat (map entities ps)))) cl l getEntities_iter sent =
        elementsReceived (Suc (length (concat (map entities ps)))) cl l
          (InSegment (listEntitiesPage JUndefined None) []) sent"
    by (rule elementsReceived_start)
  also have "\<dots> = Some (concat (map entities ps), out, FlatCompleted, sent')"
    by (rule flat_finished [OF assms ended])
  finally show "elementsReceived (Suc (length (concat (map entities ps)))) cl l getEntities_iter sent =
                Some (concat (map entities ps), out, FlatCompleted, sent')" .
qed

theorem flat_is_concatenation_of_default_pages_witness:
  "pagesReceived 4 fakeClient (queues rawEntity) (listEntitiesPage JUndefined None) [] =
     ([pageAB, pageCD, pageE], Finished, Completed,
      [pageRequest [], pageRequest [(''$skip'', Finite 2)], pageRequest [(''$skip'', Finite 4)]]) \<and>
   elementsReceived 6 fakeClient (queues rawEntity) getEntities_iter [] =
     Some (map queueRecord [''A'', ''B'', ''C'', ''D'', ''E''], Finished, FlatCompleted,
       [pageRequest [], pageRequest [(''$skip'', Finite 2)], pageRequest [(''$skip'', Finite 4)]])"
proof -
  have els: "concat (map entities [pageAB, pageCD, pageE]) =
             map queueRecord [''A'', ''B'', ''C'', ''D'', ''E'']"
    by (simp add: pageAB_def pageCD_def pageE_def decodedPage_def)
  have len: "Suc (length (map queueRecord [''A'', ''B'', ''C'', ''D'', ''E''])) = 6"
    by simp
  have ended: "Finished \<noteq> Stopped" by simp
  from flat_is_concatenation_of_default_pages [OF run_from_start] ended
  have "elementsReceived (Suc (length (concat (map entities [pageAB, pageCD, pageE]))))
          fakeClient (queues rawEntity) getEntities_iter [] =
        Some (concat (map entities [pageAB, pageCD, pageE]), Finished, FlatCompleted,
          [pageRequest [], pageRequest [(''$skip'', Finite 2)], pageRequest [(''$skip'', Finite 4)]])"
    by blast
  then have "elementsReceived 6 fakeClient (queues rawEntity) getEntities_iter [] =
        Some (map queueRecord [''A'', ''B'', ''C'', ''D'', ''E''], Finished, FlatCompleted,
          [pageRequest [], pageRequest [(''$skip'', Finite 2)], pageRequest [(''$skip'', Finite 4)]])"
    unfolding els len .
  with run_from_start show ?thesis by blast
qed


lemma valid_2: "throwIfInvalidContinuationToken (JString ''2'') = None"
  by (simp add: throwIfInvalidContinuationToken_def Number_2 number_ge0_def del: Number.simps)

lemma capped_with_top:
  "fetch_and_yield (clientOf cappedQueues) (queues rawEntity) JUndefined (Some (Finite 1)) sent =
     (Value (decodedPage [(''$top'', Finite 1)] [queueRecord ''A''] JUndefined JUndefined),
      AtYield JUndefined (Some (Finite 1)), sent @ [pageRequest [(''$top'', Finite 1)]])"
  by (simp add: fetch_and_yield_def listEntities_def listResources_def executeAtomXmlOperation_def
      buildListResponse_def buildListResponse_try_def queues_def listOf_def pageRequest_def
      decodedPage_def clientOf_fields cappedQueues_def Let_def truthy_queueRecord
      WebResource_fields number_truthy_def rounds_to_zero_def XML_METADATA_MARKER_def marker_none)

lemma capped_without_top:
  "fetch_and_yield (clientOf cappedQueues) (queues rawEntity) JUndefined None sent =
     (Value (decodedPage [] [queueRecord ''A'', queueRecord ''B''] JUndefined JUndefined),
      AtYield JUndefined None, sent @ [pageRequest []])"
  by (simp add: fetch_and_yield_def listEntities_def listResources_def executeAtomXmlOperation_def
      buildListResponse_def buildListResponse_try_def queues_def listOf_def pageRequest_def
      decodedPage_def clientOf_fields cappedQueues_def Let_def truthy_queueRecord
      WebResource_fields number_truthy_def marker_none)

lemma capped_run_with_top:
  "pagesReceived 2 (clientOf cappedQueues) (queues rawEntity)
     (listEntitiesPage JUndefined (Some (Finite 1))) [] =
     ([decodedPage [(''$top'', Finite 1)] [queueRecord ''A''] JUndefined JUndefined],
      Finished, Completed, [pageRequest [(''$top'', Finite 1)]])"
  by (simp add: eval_nat_numeral listEntitiesPage_def capped_with_top decodedPage_def)

lemma capped_run_without_top:
  "pagesReceived 2 (clientOf cappedQueues) (queues rawEntity) (listEntitiesPage JUndefined None) [] =
     ([decodedPage [] [queueRecord ''A'', queueRecord ''B''] JUndefined JUndefined],
      Finished, Completed, [pageRequest []])"
  by (simp add: eval_nat_numeral listEntitiesPage_def capped_without_top decodedPage_def)

lemma capped_flat:
  "elementsReceived 3 (clientOf cappedQueues) (queues rawEntity) getEntities_iter [] =
     Some ([queueRecord ''A'', queueRecord ''B''], Finished, FlatCompleted, [pageRequest []])"
proof -
  have els: "concat (map entities
               [decodedPage [] [queueRecord ''A'', queueRecord ''B''] JUndefined JUndefined]) =
             [queueRecord ''A'', queueRecord ''B'']"
    by (simp add: decodedPage_def)
  have len: "Suc (length [queueRecord ''A'', queueRecord ''B'']) = 3" by simp
  have "elementsReceived
          (Suc (length (concat (map entities
             [decodedPage [] [queueRecord ''A'', queueRecord ''B''] JUndefined JUndefined]))))
          (clientOf cappedQueues) (queues rawEntity)
          (InSegment (listEntitiesPage JUndefined None) []) [] =
        Some (concat (map entities
                [decodedPage [] [queueRecord ''A'', queueRecord ''B''] JUndefined JUndefined]),
              Finished, FlatCompleted, [pageRequest []])"
    by (rule flat_finished [OF capped_run_without_top]) simp
  then have "elementsReceived 3 (clientOf cappedQueues) (queues rawEntity)
               (InSegment (listEntitiesPage JUndefined None) []) [] =
             Some ([queueRecord ''A'', queueRecord ''B''], Finished, FlatCompleted, [pageRequest []])"
    unfolding els len .
  moreover have "(3::nat) = Suc 2" by simp
  ultimately show ?thesis by (simp only: elementsReceived_start)
qed

text \<open>
  Claim C1 as stated fails for a starting token and for a page size other than
  the default. On the example backend, \<^verbatim>\<open>byPage({continuationToken: "2"})\<close> yields
  the pages C, D and E, while the flat iteration of the same listing yields A,
  B, C, D, E. On the backend that reads \<^verbatim>\<open>$top\<close> as the number of records wanted
  in all, \<^verbatim>\<open>byPage({maxPageSize: 1})\<close> yields the one page A, while the flat
  iteration, which sends no \<^verbatim>\<open>$top\<close>, yields A, B.
\<close>

theorem flat_ignores_starting_token_counterexample:
  "getEntities_byPage (JString ''2'') None [] = (Inr (listEntitiesPage (JString ''2'') None), []) \<and>
   pagesReceived 3 fakeClient (queues rawEntity) (listEntitiesPage (JString ''2'') None) [] =
     ([pageCD, pageE], Finished, Completed,
      [pageRequest [(''$skip'', Finite 2)], pageRequest [(''$skip'', Finite 4)]]) \<and>
   concat (map entities [pageCD, pageE]) = map queueRecord [''C'', ''D'', ''E''] \<and>
   elementsReceived 6 fakeClient (queues rawEntity) getEntities_iter [] =
     Some (map queueRecord [''A'', ''B'', ''C'', ''D'', ''E''], Finished, FlatCompleted,
       [pageRequest [], pageRequest [(''$skip'', Finite 2)], pageRequest [(''$skip'', Finite 4)]]) \<and>
   map queueRecord [''A'', ''B'', ''C'', ''D'', ''E''] \<noteq> map queueRecord [''C'', ''D'', ''E''] \<and>
   getEntities_byPage JUndefined (Some (Finite 1)) [] =
     (Inr (listEntitiesPage JUndefined (Some (Finite 1))), []) \<and>
   pagesReceived 2 (clientOf cappedQueues) (queues rawEntity)
     (listEntitiesPage JUndefined (Some (Finite 1))) [] =
     ([decodedPage [(''$top'', Finite 1)] [queueRecord ''A''] JUndefined JUndefined],
      Finished, Completed, [pageRequest [(''$top'', Finite 1)]]) \<and>
   concat (map entities [decodedPage [(''$top'', Finite 1)] [queueRecord ''A''] JUndefined JUndefined]) =
     [queueRecord ''A''] \<and>
   elementsReceived 3 (clientOf cappedQueues) (queues rawEntity) getEntities_iter [] =
     Some ([queueRecord ''A'', queueRecord ''B''], Finished, FlatCompleted, [pageRequest []]) \<and>
   [queueRecord ''A'', queueRecord ''B''] \<noteq> [queueRecord ''A'']"
proof -
  have "getEntities_byPage (JString ''2'') None [] = (Inr (listEntitiesPage (JString ''2'') None), [])"
    by (simp add: getEntities_byPage_def valid_2)
  moreover have "concat (map entities [pageCD, pageE]) = map queueRecord [''C'', ''D'', ''E'']"
    by (simp add: pageCD_def pageE_def decodedPage_def)
  moreover have "map queueRecord [''A'', ''B'', ''C'', ''D'', ''E''] \<noteq> map queueRecord [''C'', ''D'', ''E'']"
    by simp
  moreover have "getEntities_byPage JUndefined (Some (Finite 1)) [] =
     (Inr (listEntitiesPage JUndefined (Some (Finite 1))), [])"
    by (simp add: getEntities_byPage_def throwIfInvalidContinuationToken_def)
  moreover have "concat (map entities
      [decodedPage [(''$top'', Finite 1)] [queueRecord ''A''] JUndefined JUndefined]) = [queueRecord ''A'']"
    by (simp add: decodedPage_def)
  moreover have "[queueRecord ''A'', queueRecord ''B''] \<noteq> [queueRecord ''A'']"
    by simp
  ultimately show ?thesis
    using run_from_2 flat_from_start capped_run_with_top capped_flat by blast
qed

section \<open>Validation of the continuation token\<close>

lemma throwIfInvalidContinuationToken_iff:
  "(throwIfInvalidContinuationToken token = None) =
     (token = JUndefined \<or> (\<exists>s. token = JString s \<and> number_ge0 (StringToNumber s)))"
  by (cases token) (auto simp: throwIfInvalidContinuationToken_def)

lemma throwIfInvalidContinuationToken_Error:
  "throwIfInvalidContinuationToken token = None \<or> throwIfInvalidContinuationToken token = Some Error"
  by (simp add: throwIfInvalidContinuationToken_def)

lemma Number_minus1: "StringToNumber ''-1'' = Finite (- 1)"
  by (simp add: StringToNumber_defs)

lemma Number_abc: "StringToNumber ''abc'' = NaN"
  by (simp add: StringToNumber_defs)

lemma Number_nbsp_5: "StringToNumber [CHR 0xA0, CHR ''5''] = Finite 5"
  by (simp add: StringToNumber_defs)

lemma first_request_has_no_skip:
  "snd (snd (listEntitiesPage_next cl l (listEntitiesPage JUndefined maxPageSize) sent)) =
     sent @ [WebResource (resource l)
               (case maxPageSize of None \<Rightarrow> []
                | Some n \<Rightarrow> if number_truthy n then [(''$top'', n)] else []) GET]"
  by (simp add: listEntitiesPage_def fetch_and_yield_def listEntities_def listResources_def
      executeAtomXmlOperation_def number_truthy_def XML_METADATA_MARKER_def Let_def
      split: sum.splits option.splits)

text \<open>
  Claim C2. \<^verbatim>\<open>byPage\<close> raises the usage error exactly when the continuation token
  is neither \<^verbatim>\<open>undefined\<close> nor a string whose numeric value is at least 0, and
  otherwise returns the page generator started at that token; in both cases no
  request is sent. In particular \<^verbatim>\<open>"-1"\<close>, \<^verbatim>\<open>"abc"\<close> and every truthy value that is
  not a string raise. With \<^verbatim>\<open>undefined\<close> the first request carries no \<^verbatim>\<open>$skip\<close>
  parameter, that is, the listing starts at offset 0.
\<close>

theorem byPage_validates_continuation_token:
  "(fst (getEntities_byPage token maxPageSize sent) = Inl Error) =
     (\<not> (token = JUndefined \<or> (\<exists>s. token = JString s \<and> number_ge0 (StringToNumber s)))) \<and>
   (fst (getEntities_byPage token maxPageSize sent) = Inr (listEntitiesPage token maxPageSize)) =
     (token = JUndefined \<or> (\<exists>s. token = JString s \<and> number_ge0 (StringToNumber s))) \<and>
   snd (getEntities_byPage token maxPageSize sent) = sent \<and>
   fst (getEntities_byPage (JString ''-1'') maxPageSize sent) = Inl Error \<and>
   fst (getEntities_byPage (JString ''abc'') maxPageSize sent) = Inl Error \<and>
   (\<not> isString token \<and> truthy token \<longrightarrow>
      fst (getEntities_byPage token maxPageSize sent) = Inl Error) \<and>
   getEntities_byPage JUndefined maxPageSize sent =
     (Inr (listEntitiesPage JUndefined maxPageSize), sent) \<and>
   snd (snd (listEntitiesPage_next cl l (listEntitiesPage JUndefined maxPageSize) sent)) =
     sent @ [WebResource (resource l)
               (case maxPageSize of None \<Rightarrow> []
                | Some n \<Rightarrow> if number_truthy n then [(''$top'', n)] else []) GET]"
proof -
  have split: "getEntities_byPage token maxPageSize sent =
      (if throwIfInvalidContinuationToken token = None
       then (Inr (listEntitiesPage token maxPageSize), sent) else (Inl Error, sent))"
    using throwIfInvalidContinuationToken_Error [of token]
    by (auto simp: getEntities_byPage_def)
  have a: "(fst (getEntities_byPage token maxPageSize sent) = Inl Error) =
     (\<not> (token = JUndefined \<or> (\<exists>s. token = JString s \<and> number_ge0 (StringToNumber s))))"
    unfolding split throwIfInvalidContinuationToken_iff [symmetric] by simp
  have b: "(fst (getEntities_byPage token maxPageSize sent) = Inr (listEntitiesPage token maxPageSize)) =
     (token = JUndefined \<or> (\<exists>s. token = JString s \<and> number_ge0 (StringToNumber s)))"
    unfolding split throwIfInvalidContinuationToken_iff [symmetric] by simp
  have c: "snd (getEntities_byPage token maxPageSize sent) = sent"
    unfolding split by simp
  have d: "fst (getEntities_byPage (JString ''-1'') maxPageSize sent) = Inl Error"
    by (simp add: getEntities_byPage_def throwIfInvalidContinuationToken_def Number_minus1
        number_ge0_def rounds_to_zero_def)
  have e: "fst (getEntities_byPage (JString ''abc'') maxPageSize sent) = Inl Error"
    by (simp add: getEntities_byPage_def throwIfInvalidContinuationToken_def Number_abc
        number_ge0_def)
  have f: "\<not> isString token \<and> truthy token \<longrightarrow>
      fst (getEntities_byPage token maxPageSize sent) = Inl Error"
    by (cases token) (simp_all add: getEntities_byPage_def throwIfInvalidContinuationToken_def)
  have g: "getEntities_byPage JUndefined maxPageSize sent =
     (Inr (listEntitiesPage JUndefined maxPageSize), sent)"
    by (simp add: getEntities_byPage_def throwIfInvalidContinuationToken_def)
  show ?thesis
    using a b c d e f g first_request_has_no_skip [of cl l maxPageSize sent] by blast
qed

theorem byPage_validates_continuation_token_witness:
  "\<not> isString (JNumber (Finite 5)) \<and> truthy (JNumber (Finite 5)) \<and>
   fst (getEntities_byPage (JNumber (Finite 5)) None []) = Inl Error \<and>
   fst (getEntities_byPage (JString ''-1'') None []) = Inl Error \<and>
   fst (getEntities_byPage (JString ''abc'') None []) = Inl Error \<and>
   getEntities_byPage JUndefined None [] = (Inr (listEntitiesPage JUndefined None), []) \<and>
   snd (snd (listEntitiesPage_next fakeClient (queues rawEntity)
               (listEntitiesPage JUndefined None) [])) = [pageRequest []] \<and>
   number_ge0 (StringToNumber [CHR 0xA0, CHR ''5'']) \<and>
   getEntities_byPage (JString [CHR 0xA0, CHR ''5'']) None [] =
     (Inr (listEntitiesPage (JString [CHR 0xA0, CHR ''5'']) None), [])"
proof -
  have five: "\<not> isString (JNumber (Finite 5)) \<and> truthy (JNumber (Finite 5))"
    by (simp add: number_truthy_def rounds_to_zero_def)
  have padded: "number_ge0 (StringToNumber [CHR 0xA0, CHR ''5''])"
    by (simp add: Number_nbsp_5 number_ge0_def)
  then have "fst (getEntities_byPage (JString [CHR 0xA0, CHR ''5'']) None []) =
               Inr (listEntitiesPage (JString [CHR 0xA0, CHR ''5'']) None) \<and>
             snd (getEntities_byPage (JString [CHR 0xA0, CHR ''5'']) None []) = []"
    using byPage_validates_continuation_token
            [of "JString [CHR 0xA0, CHR ''5'']" None "[]" fakeClient "queues rawEntity"]
    by blast
  then have accepted: "getEntities_byPage (JString [CHR 0xA0, CHR ''5'']) None [] =
     (Inr (listEntitiesPage (JString [CHR 0xA0, CHR ''5'']) None), [])"
    by (simp add: prod_eq_iff)
  have req: "WebResource (resource (queues rawEntity))
               (case None of None \<Rightarrow> []
                | Some n \<Rightarrow> if number_truthy n then [(''$top'', n)] else []) GET = pageRequest []"
    by (simp add: queues_def pageRequest_def)
  show ?thesis
    using byPage_validates_continuation_token
            [of "JNumber (Finite 5)" None "[]" fakeClient "queues rawEntity"] five padded accepted
    unfolding req by simp
qed

section \<open>The last page\<close>

lemma fetch_request:
  "snd (listEntities cl l skip maxCount sent) =
     sent @ [WebResource (resource l)
               ((if number_truthy skip then [(''$skip'', skip)] else []) @
                (case maxCount of None \<Rightarrow> []
                 | Some n \<Rightarrow> if number_truthy n then [(''$top'', n)] else [])) GET]"
  by (simp add: listEntities_def listResources_def executeAtomXmlOperation_def
      XML_METADATA_MARKER_def Let_def split: sum.splits option.splits)

lemma fetched_page_is_yielded:
  assumes "listEntities cl l (Number marker) maxPageSize sent = (Inr p, sent')"
    and "pages = listEntitiesPage marker maxPageSize \<or>
         (pages = AtYield marker maxPageSize \<and> truthy marker)"
  shows "listEntitiesPage_next cl l pages sent =
         (Value p, AtYield (continuationToken p) maxPageSize, sent')"
  using assms by (auto simp: listEntitiesPage_def fetch_and_yield_def)

lemma fetched_page_is_built:
  assumes "listEntities cl l skip maxCount sent = (Inr p, sent')"
  shows "buildListResponse cl (decoder l) (underlying p) = Inr p"
proof -
  have built: "buildListResponse cl b resp = Inr q \<Longrightarrow> underlying q = resp" for b resp q
    by (auto simp: buildListResponse_def buildListResponse_try_def
        split: sum.splits if_splits)
  show ?thesis
    using assms built
    by (auto simp: listEntities_def split: prod.splits sum.splits)
qed

lemma token_of_built_page:
  assumes "buildListResponse cl b resp = Inr p"
  shows "\<exists>link. get_property (parsedBody resp) ''nextLink'' = Inr link \<and>
                getMarkerFromNextLinkUrl cl link = Inr (continuationToken p)"
  using assms
  by (auto simp: buildListResponse_def buildListResponse_try_def
      split: sum.splits if_splits)

lemma no_link_no_token:
  assumes "buildListResponse cl b (underlying p) = Inr p"
    and "get_property (parsedBody (underlying p)) ''nextLink'' = Inr link" and "\<not> truthy link"
  shows "continuationToken p = JUndefined"
proof -
  obtain link' where "get_property (parsedBody (underlying p)) ''nextLink'' = Inr link'"
    and m: "getMarkerFromNextLinkUrl cl link' = Inr (continuationToken p)"
    using token_of_built_page [OF assms(1)] by blast
  with assms(2) have "link' = link" by simp
  with m assms(3) show ?thesis by (simp add: getMarkerFromNextLinkUrl_def)
qed

lemma fetchE:
  "listEntities fakeClient (queues rawEntity) (Number (JString ''4'')) None sent =
     (Inr pageE, sent @ [pageRequest [(''$skip'', Finite 4)]])"
  by (simp add: fetch_defs Number_4 truthy_4 skip_key marker_none pageE_def del: Number.simps)

lemma capped_fetch:
  "listEntities (clientOf cappedQueues) (queues rawEntity) (Number JUndefined) None sent =
     (Inr (decodedPage [] [queueRecord ''A'', queueRecord ''B''] JUndefined JUndefined),
      sent @ [pageRequest []])"
  by (simp add: listEntities_def listResources_def executeAtomXmlOperation_def
      buildListResponse_def buildListResponse_try_def queues_def listOf_def pageRequest_def
      decodedPage_def clientOf_fields cappedQueues_def Let_def truthy_queueRecord
      WebResource_fields number_truthy_def marker_none)

text \<open>
  Claim C3. Let the fetch of a page generator that is about to fetch (a
  generator not yet started, or one suspended at its \<^verbatim>\<open>yield\<close> with a truthy
  marker) return a page \<open>p\<close> that carries no continuation token; a page whose
  response envelope has no next link is such a page. Then \<^verbatim>\<open>next()\<close> yields \<open>p\<close>,
  having sent the one request of that fetch, and the call of \<^verbatim>\<open>next()\<close> after it
  ends the iteration without a request: a \<^verbatim>\<open>byPage\<close> consumer receives \<open>p\<close> and
  no further page. The flat iterator that drives this generator, with the part
  \<open>buf\<close> of the page before still to be re-emitted, yields \<open>buf\<close>, then the
  elements of \<open>p\<close>, and ends, again after that one request; so does a fresh flat
  iterator when the page is the first one.
\<close>

theorem page_without_token_is_yielded_last:
  assumes "listEntities cl l (Number marker) maxPageSize sent = (Inr p, sent')"
    and "\<not> truthy (continuationToken p) \<or>
         (\<exists>link. get_property (parsedBody (underlying p)) ''nextLink'' = Inr link \<and> \<not> truthy link)"
    and "pages = listEntitiesPage marker maxPageSize \<or>
         (pages = AtYield marker maxPageSize \<and> truthy marker)"
  shows "listEntitiesPage_next cl l pages sent =
           (Value p, AtYield (continuationToken p) maxPageSize, sent') \<and>
         sent' = sent @ [WebResource (resource l)
                   ((if number_truthy (Number marker) then [(''$skip'', Number marker)] else []) @
                    (case maxPageSize of None \<Rightarrow> []
                     | Some n \<Rightarrow> if number_truthy n then [(''$top'', n)] else [])) GET] \<and>
         \<not> truthy (continuationToken p) \<and>
         listEntitiesPage_next cl l (AtYield (continuationToken p) maxPageSize) sent' =
           (Done, Completed, sent') \<and>
         pagesReceived (Suc (Suc n)) cl l pages sent = ([p], Finished, Completed, sent') \<and>
         elementsReceived (Suc (length buf + length (entities p))) cl l (InSegment pages buf) sent =
           Some (buf @ entities p, Finished, FlatCompleted, sent') \<and>
         (marker = JUndefined \<and> maxPageSize = None \<longrightarrow>
            elementsReceived (Suc (length (entities p))) cl l getEntities_iter sent =
              Some (entities p, Finished, FlatCompleted, sent'))"
proof -
  have built: "buildListResponse cl (decoder l) (underlying p) = Inr p"
    by (rule fetched_page_is_built [OF assms(1)])
  have falsy: "\<not> truthy (continuationToken p)"
    using assms(2) no_link_no_token [OF built] by auto
  have first: "listEntitiesPage_next cl l pages sent =
                 (Value p, AtYield (continuationToken p) maxPageSize, sent')"
    by (rule fetched_page_is_yielded [OF assms(1) assms(3)])
  have req: "sent' = sent @ [WebResource (resource l)
                   ((if number_truthy (Number marker) then [(''$skip'', Number marker)] else []) @
                    (case maxPageSize of None \<Rightarrow> []
                     | Some n \<Rightarrow> if number_truthy n then [(''$top'', n)] else [])) GET]"
    using fetch_request [of cl l "Number marker" maxPageSize sent] assms(1) by simp
  have ended: "listEntitiesPage_next cl l (AtYield (continuationToken p) maxPageSize) sent' =
                 (Done, Completed, sent')"
    using falsy by simp
  have run: "pagesReceived (Suc (Suc n)) cl l g sent = ([p], Finished, Completed, sent')"
    if "listEntitiesPage_next cl l g sent =
          (Value p, AtYield (continuationToken p) maxPageSize, sent')" for g
    using that ended by simp
  have flat0: "elementsReceived (Suc (length (entities p))) cl l (InSegment g []) sent =
                 Some (entities p, Finished, FlatCompleted, sent')"
    if "listEntitiesPage_next cl l g sent =
          (Value p, AtYield (continuationToken p) maxPageSize, sent')" for g
    using flat_finished [OF run [OF that]] by simp
  have flat: "elementsReceived (Suc (length buf + length (entities p))) cl l
                (InSegment pages buf) sent =
              Some (buf @ entities p, Finished, FlatCompleted, sent')"
  proof -
    have "Suc (length buf + length (entities p)) = length buf + Suc (length (entities p))"
      by simp
    then show ?thesis
      by (simp only: elementsReceived_buffer flat0 [OF first]) simp
  qed
  have fresh: "marker = JUndefined \<and> maxPageSize = None \<longrightarrow>
            elementsReceived (Suc (length (entities p))) cl l getEntities_iter sent =
              Some (entities p, Finished, FlatCompleted, sent')"
  proof
    assume start: "marker = JUndefined \<and> maxPageSize = None"
    have "listEntitiesPage_next cl l (listEntitiesPage marker maxPageSize) sent =
            (Value p, AtYield (continuationToken p) maxPageSize, sent')"
      by (rule fetched_page_is_yielded [OF assms(1)]) simp
    from flat0 [OF this] start
    have "elementsReceived (Suc (length (entities p))) cl l
            (InSegment (listEntitiesPage JUndefined None) []) sent =
          Some (entities p, Finished, FlatCompleted, sent')"
      by simp
    then show "elementsReceived (Suc (length (entities p))) cl l getEntities_iter sent =
                 Some (entities p, Finished, FlatCompleted, sent')"
      by (simp only: elementsReceived_start)
  qed
  from first req falsy ended run [OF first] flat fresh show ?thesis by blast
qed

theorem page_without_token_is_yielded_last_witness:
  "listEntities fakeClient (queues rawEntity) (Number (JString ''4'')) None [] =
     (Inr pageE, [pageRequest [(''$skip'', Finite 4)]]) \<and>
   get_property (parsedBody (underlying pageE)) ''nextLink'' = Inr JUndefined \<and>
   listEntitiesPage_next fakeClient (queues rawEntity) (listEntitiesPage (JString ''4'') None) [] =
     (Value pageE, AtYield JUndefined None, [pageRequest [(''$skip'', Finite 4)]]) \<and>
   listEntitiesPage_next fakeClient (queues rawEntity) (AtYield JUndefined None)
     [pageRequest [(''$skip'', Finite 4)]] = (Done, Completed, [pageRequest [(''$skip'', Finite 4)]]) \<and>
   pagesReceived 2 fakeClient (queues rawEntity) (listEntitiesPage (JString ''4'') None) [] =
     ([pageE], Finished, Completed, [pageRequest [(''$skip'', Finite 4)]]) \<and>
   elementsReceived 2 fakeClient (queues rawEntity)
     (InSegment (listEntitiesPage (JString ''4'') None) []) [] =
       Some ([queueRecord ''E''], Finished, FlatCompleted, [pageRequest [(''$skip'', Finite 4)]]) \<and>
   listEntities (clientOf cappedQueues) (queues rawEntity) (Number JUndefined) None [] =
     (Inr (decodedPage [] [queueRecord ''A'', queueRecord ''B''] JUndefined JUndefined),
      [pageRequest []]) \<and>
   pagesReceived 2 (clientOf cappedQueues) (queues rawEntity) (listEntitiesPage JUndefined None) [] =
     ([decodedPage [] [queueRecord ''A'', queueRecord ''B''] JUndefined JUndefined],
      Finished, Completed, [pageRequest []]) \<and>
   elementsReceived 3 (clientOf cappedQueues) (queues rawEntity) getEntities_iter [] =
     Some ([queueRecord ''A'', queueRecord ''B''], Finished, FlatCompleted, [pageRequest []])"
proof -
  have fetched: "listEntities fakeClient (queues rawEntity) (Number (JString ''4'')) None [] =
                   (Inr pageE, [pageRequest [(''$skip'', Finite 4)]])"
    using fetchE [of "[]"] by simp
  have link: "get_property (parsedBody (underlying pageE)) ''nextLink'' = Inr JUndefined"
    by (simp add: pageE_def decodedPage_def)
  have hyp: "\<not> truthy (continuationToken pageE) \<or>
         (\<exists>link. get_property (parsedBody (underlying pageE)) ''nextLink'' = Inr link \<and> \<not> truthy link)"
    using link by simp
  have fresh: "listEntitiesPage (JString ''4'') None = listEntitiesPage (JString ''4'') None \<or>
               (listEntitiesPage (JString ''4'') None = AtYield (JString ''4'') None \<and>
                truthy (JString ''4''))"
    by simp
  have tokenE: "continuationToken pageE = JUndefined" and elsE: "entities pageE = [queueRecord ''E'']"
    by (simp_all add: pageE_def decodedPage_def)
  have a: "listEntitiesPage_next fakeClient (queues rawEntity)
             (listEntitiesPage (JString ''4'') None) [] =
           (Value pageE, AtYield JUndefined None, [pageRequest [(''$skip'', Finite 4)]]) \<and>
         listEntitiesPage_next fakeClient (queues rawEntity) (AtYield JUndefined None)
           [pageRequest [(''$skip'', Finite 4)]] =
           (Done, Completed, [pageRequest [(''$skip'', Finite 4)]]) \<and>
         pagesReceived (Suc (Suc 0)) fakeClient (queues rawEntity)
           (listEntitiesPage (JString ''4'') None) [] =
           ([pageE], Finished, Completed, [pageRequest [(''$skip'', Finite 4)]]) \<and>
         elementsReceived (Suc (length ([] :: js_value list) + length [queueRecord ''E'']))
           fakeClient (queues rawEntity) (InSegment (listEntitiesPage (JString ''4'') None) []) [] =
           Some ([] @ [queueRecord ''E''], Finished, FlatCompleted,
                 [pageRequest [(''$skip'', Finite 4)]])"
    using page_without_token_is_yielded_last [OF fetched hyp fresh, of 0 "[]"]
    unfolding tokenE elsE by blast
  let ?pageAB = "decodedPage [] [queueRecord ''A'', queueRecord ''B''] JUndefined JUndefined"
  have fetched': "listEntities (clientOf cappedQueues) (queues rawEntity) (Number JUndefined) None [] =
                    (Inr ?pageAB, [pageRequest []])"
    using capped_fetch [of "[]"] by simp
  have hyp': "\<not> truthy (continuationToken ?pageAB) \<or>
         (\<exists>link. get_property (parsedBody (underlying ?pageAB)) ''nextLink'' = Inr link \<and>
                 \<not> truthy link)"
    by (simp add: decodedPage_def)
  have fresh': "listEntitiesPage JUndefined None = listEntitiesPage JUndefined None \<or>
               (listEntitiesPage JUndefined None = AtYield JUndefined None \<and> truthy JUndefined)"
    by simp
  have elsAB: "entities ?pageAB = [queueRecord ''A'', queueRecord ''B'']"
    by (simp add: decodedPage_def)
  have b: "pagesReceived (Suc (Suc 0)) (clientOf cappedQueues) (queues rawEntity)
             (listEntitiesPage JUndefined None) [] =
           ([?pageAB], Finished, Completed, [pageRequest []]) \<and>
         elementsReceived (Suc (length [queueRecord ''A'', queueRecord ''B'']))
           (clientOf cappedQueues) (queues rawEntity) getEntities_iter [] =
           Some ([queueRecord ''A'', queueRecord ''B''], Finished, FlatCompleted, [pageRequest []])"
    using page_without_token_is_yielded_last [OF fetched' hyp' fresh', of 0 "[]"]
    unfolding elsAB by blast
  have n2: "(2::nat) = Suc (Suc 0)"
    and m2: "(2::nat) = Suc (length ([] :: js_value list) + length [queueRecord ''E''])"
    and m3: "(3::nat) = Suc (length [queueRecord ''A'', queueRecord ''B''])"
    and app: "[] @ [queueRecord ''E''] = [queueRecord ''E'']"
    by simp_all
  show ?thesis
    using a b fetched link fetched'
    unfolding n2 [symmetric] m2 [symmetric] m3 [symmetric] app by blast
qed

section \<open>Resuming from a token\<close>



















section \<open>Decoding a page\<close>

lemma buildListResponse_NonArray:
  "\<not> isArray (parsedBody resp) \<Longrightarrow> buildListResponse cl b resp = Inl (parse_error resp)"
  by (simp add: buildListResponse_def buildListResponse_try_def split: sum.splits)

text \<open>
  Claim C6. When the parsed body of a listing response is not an array, the
  listing operation (and with it the call of \<^verbatim>\<open>next()\<close> that issued the request)
  raises a \<^verbatim>\<open>RestError\<close> with the code \<^verbatim>\<open>PARSE_ERROR\<close>, the status of the
  response, and the stripped request and response.
\<close>

theorem non_array_body_is_parse_error:
  assumes "listResources (service cl) (resource l) (Number marker) maxPageSize sent =
             (Inr resp, sent')"
    and "\<not> isArray (parsedBody resp)"
  shows "listEntities cl l (Number marker) maxPageSize sent =
           (Inl (RestError (Some ''PARSE_ERROR'') (Some (status resp))
                   (Some (stripRequest (request resp))) (Some (stripResponse resp))), sent') \<and>
         listEntitiesPage_next cl l (listEntitiesPage marker maxPageSize) sent =
           (Throws (RestError (Some ''PARSE_ERROR'') (Some (status resp))
                      (Some (stripRequest (request resp))) (Some (stripResponse resp))),
            Completed, sent')"
  using assms buildListResponse_NonArray [OF assms(2), of cl "decoder l"]
  by (simp add: listEntities_def listEntitiesPage_def fetch_and_yield_def parse_error_def
      PARSE_ERROR_def)

theorem non_array_body_is_parse_error_witness:
  "listResources (service (clientOf (answering 500 (JString ''<html/>''))))
     (resource (queues rawEntity)) (Number JUndefined) None [] =
     (Inr \<lparr>status = 500, request = pageRequest [], parsedBody = JString ''<html/>''\<rparr>,
      [pageRequest []]) \<and>
   listEntities (clientOf (answering 500 (JString ''<html/>''))) (queues rawEntity)
     (Number JUndefined) None [] =
     (Inl (RestError (Some ''PARSE_ERROR'') (Some 500) (Some (stripRequest (pageRequest [])))
        (Some (stripResponse \<lparr>status = 500, request = pageRequest [],
                 parsedBody = JString ''<html/>''\<rparr>))), [pageRequest []])"
proof -
  have sent: "listResources (service (clientOf (answering 500 (JString ''<html/>''))))
     (resource (queues rawEntity)) (Number JUndefined) None [] =
     (Inr \<lparr>status = 500, request = pageRequest [], parsedBody = JString ''<html/>''\<rparr>,
      [pageRequest []])"
    by (simp add: listResources_def executeAtomXmlOperation_def clientOf_fields answering_def
        queues_def pageRequest_def number_truthy_def)
  have body: "\<not> isArray (parsedBody \<lparr>status = 500, request = pageRequest [],
                parsedBody = JString ''<html/>''\<rparr>)"
    by simp
  show ?thesis
    using non_array_body_is_parse_error [OF sent body] sent by simp
qed

lemma decodeRecords_all_decoded:
  "\<forall>raw\<in>set raws. \<exists>v. build raw = Inr v \<Longrightarrow>
   decodeRecords build raws acc =
     Inr (acc @ filter truthy (map (\<lambda>raw. projr (build raw)) raws))"
proof (induction raws arbitrary: acc)
  case Nil
  show ?case by simp
next
  case (Cons raw raws)
  then obtain v where v: "build raw = Inr v" by auto
  from Cons.prems have rest: "\<forall>raw\<in>set raws. \<exists>v. build raw = Inr v" by simp
  show ?case using v Cons.IH [OF rest] by simp
qed

lemma decodeRecords_one_throws:
  "\<exists>raw\<in>set raws. \<exists>e. build raw = Inl e \<Longrightarrow>
   \<exists>e. decodeRecords build raws acc = Inl e"
proof (induction raws arbitrary: acc)
  case Nil
  then show ?case by simp
next
  case (Cons raw raws)
  show ?case
  proof (cases "build raw")
    case (Inl e)
    then show ?thesis by simp
  next
    case (Inr v)
    with Cons.prems have "\<exists>raw\<in>set raws. \<exists>e. build raw = Inl e" by auto
    from Cons.IH [OF this] Inr show ?thesis by simp
  qed
qed

text \<open>
  Claim C7, as amended. For a listing response whose body is an array: when the
  next link (if any) can be parsed and the decoder returns for every raw
  record, the page holds the decoded records in their original order, without
  those for which the decoder returned no entity (a falsy value). When the
  decoder throws on a record, or the next link cannot be parsed, the whole page
  fails with the parse error, as it does for a body that is not an array.
\<close>

theorem records_without_entity_are_dropped:
  assumes "parsedBody resp = JArray raws link"
  shows "(getMarkerFromNextLinkUrl cl link = Inr marker \<and>
          (\<forall>raw\<in>set raws. \<exists>v. build raw = Inr v) \<longrightarrow>
            buildListResponse cl build resp =
              Inr \<lparr>entities = filter truthy (map (\<lambda>raw. projr (build raw)) raws),
                   continuationToken = marker, underlying = resp\<rparr>) \<and>
         ((\<exists>e. getMarkerFromNextLinkUrl cl link = Inl e) \<or>
          (\<exists>raw\<in>set raws. \<exists>e. build raw = Inl e) \<longrightarrow>
            buildListResponse cl build resp = Inl (parse_error resp))"
proof (intro conjI impI)
  assume ok: "getMarkerFromNextLinkUrl cl link = Inr marker \<and>
              (\<forall>raw\<in>set raws. \<exists>v. build raw = Inr v)"
  then have "decodeRecords build raws [] =
             Inr (filter truthy (map (\<lambda>raw. projr (build raw)) raws))"
    using decodeRecords_all_decoded [of raws build "[]"] by simp
  with ok assms show "buildListResponse cl build resp =
      Inr \<lparr>entities = filter truthy (map (\<lambda>raw. projr (build raw)) raws),
           continuationToken = marker, underlying = resp\<rparr>"
    by (simp add: buildListResponse_def buildListResponse_try_def)
next
  assume bad: "(\<exists>e. getMarkerFromNextLinkUrl cl link = Inl e) \<or>
               (\<exists>raw\<in>set raws. \<exists>e. build raw = Inl e)"
  show "buildListResponse cl build resp = Inl (parse_error resp)"
  proof (cases "getMarkerFromNextLinkUrl cl link")
    case (Inl e)
    with assms show ?thesis
      by (simp add: buildListResponse_def buildListResponse_try_def)
  next
    case (Inr m)
    with bad have "\<exists>raw\<in>set raws. \<exists>e. build raw = Inl e" by auto
    then obtain e where "decodeRecords build raws [] = Inl e"
      using decodeRecords_one_throws [of raws build "[]"] by blast
    with Inr assms show ?thesis
      by (simp add: buildListResponse_def buildListResponse_try_def)
  qed
qed

lemma picky_all_return:
  "\<forall>raw\<in>set [queueRecord ''A'', JBoolean True, queueRecord ''B''].
     \<exists>v. pickyDecoder raw = Inr v"
  by (simp add: queueRecord_def)

theorem records_without_entity_are_dropped_witness:
  "getMarkerFromNextLinkUrl fakeClient JUndefined = Inr JUndefined \<and>
   pickyDecoder (JBoolean True) = Inr JUndefined \<and>
   buildListResponse fakeClient pickyDecoder
     \<lparr>status = 200, request = pageRequest [],
      parsedBody = JArray [queueRecord ''A'', JBoolean True, queueRecord ''B''] JUndefined\<rparr> =
     Inr \<lparr>entities = [queueRecord ''A'', queueRecord ''B''], continuationToken = JUndefined,
          underlying = \<lparr>status = 200, request = pageRequest [],
            parsedBody = JArray [queueRecord ''A'', JBoolean True, queueRecord ''B''] JUndefined\<rparr>\<rparr>"
proof -
  have body: "parsedBody \<lparr>status = 200, request = pageRequest [],
      parsedBody = JArray [queueRecord ''A'', JBoolean True, queueRecord ''B''] JUndefined\<rparr> =
      JArray [queueRecord ''A'', JBoolean True, queueRecord ''B''] JUndefined"
    by simp
  have kept: "filter truthy (map (\<lambda>raw. projr (pickyDecoder raw))
                [queueRecord ''A'', JBoolean True, queueRecord ''B'']) =
              [queueRecord ''A'', queueRecord ''B'']"
    by (simp add: queueRecord_def)
  show ?thesis
    using records_without_entity_are_dropped [OF body, of fakeClient JUndefined pickyDecoder]
      picky_all_return marker_none [of fakeClient]
    unfolding kept by simp
qed

text \<open>
  Claim C7 as stated fails: a record on which the decoder throws, and a next
  link that cannot be parsed, each make the whole page fail although the body
  is an array.
\<close>

theorem array_page_fails_on_throwing_decoder_counterexample:
  "pickyDecoder JNull = Inl TypeError \<and>
   buildListResponse fakeClient pickyDecoder
     \<lparr>status = 200, request = pageRequest [],
      parsedBody = JArray [queueRecord ''A'', JNull, queueRecord ''B''] JUndefined\<rparr> =
     Inl (RestError (Some ''PARSE_ERROR'') (Some 200) (Some (stripRequest (pageRequest [])))
        (Some (stripResponse \<lparr>status = 200, request = pageRequest [],
           parsedBody = JArray [queueRecord ''A'', JNull, queueRecord ''B''] JUndefined\<rparr>))) \<and>
   simpleParseURL (JString ''next page'') = None \<and>
   buildListResponse fakeClient rawEntity
     \<lparr>status = 200, request = pageRequest [],
      parsedBody = JArray [queueRecord ''A''] (JString ''next page'')\<rparr> =
     Inl (RestError (Some ''PARSE_ERROR'') (Some 200) (Some (stripRequest (pageRequest [])))
        (Some (stripResponse \<lparr>status = 200, request = pageRequest [],
           parsedBody = JArray [queueRecord ''A''] (JString ''next page'')\<rparr>)))"
proof -
  have noparse: "simpleParseURL (JString ''next page'') = None"
    by (simp add: simpleParseURL_def isPrefixOf_def)
  have "getMarkerFromNextLinkUrl fakeClient (JString ''next page'') = Inl Error"
    by (simp add: getMarkerFromNextLinkUrl_def fake_parseURL noparse)
  then have link: "buildListResponse fakeClient rawEntity
     \<lparr>status = 200, request = pageRequest [],
      parsedBody = JArray [queueRecord ''A''] (JString ''next page'')\<rparr> =
     Inl (RestError (Some ''PARSE_ERROR'') (Some 200) (Some (stripRequest (pageRequest [])))
        (Some (stripResponse \<lparr>status = 200, request = pageRequest [],
           parsedBody = JArray [queueRecord ''A''] (JString ''next page'')\<rparr>)))"
    by (simp add: buildListResponse_def buildListResponse_try_def parse_error_def PARSE_ERROR_def)
  have thrown: "buildListResponse fakeClient pickyDecoder
     \<lparr>status = 200, request = pageRequest [],
      parsedBody = JArray [queueRecord ''A'', JNull, queueRecord ''B''] JUndefined\<rparr> =
     Inl (RestError (Some ''PARSE_ERROR'') (Some 200) (Some (stripRequest (pageRequest [])))
        (Some (stripResponse \<lparr>status = 200, request = pageRequest [],
           parsedBody = JArray [queueRecord ''A'', JNull, queueRecord ''B''] JUndefined\<rparr>)))"
    by (simp add: buildListResponse_def buildListResponse_try_def parse_error_def PARSE_ERROR_def
        marker_none queueRecord_def)
  show ?thesis using noparse link thrown by simp
qed

section \<open>The continuation token of a page\<close>

text \<open>
  Claim C8, as amended. The continuation token of a page is \<^verbatim>\<open>undefined\<close> when
  the response has no next link, and otherwise what \<^verbatim>\<open>searchParams.get\<close> returns
  for the \<^verbatim>\<open>$skip\<close> parameter of the next link: its value as a string, or
  \<^verbatim>\<open>null\<close> when the link has no such parameter. The value is taken as the
  server sent it; nothing checks that it decodes to a non-negative integer.
\<close>

theorem token_is_skip_parameter_of_next_link:
  assumes "buildListResponse cl build resp = Inr p"
  shows "\<exists>link. get_property (parsedBody resp) ''nextLink'' = Inr link \<and>
           (if \<not> truthy link then continuationToken p = JUndefined
            else \<exists>params. parseURL cl link = Some params \<and>
                   continuationToken p =
                     (case map_of params ''$skip'' of None \<Rightarrow> JNull | Some v \<Rightarrow> JString v))"
proof -
  obtain link where link: "get_property (parsedBody resp) ''nextLink'' = Inr link"
    and m: "getMarkerFromNextLinkUrl cl link = Inr (continuationToken p)"
    using token_of_built_page [OF assms] by blast
  show ?thesis
  proof (cases "truthy link")
    case False
    with m link show ?thesis by (auto simp: getMarkerFromNextLinkUrl_def)
  next
    case True
    with m obtain params where "parseURL cl link = Some params"
      and "continuationToken p =
             (case map_of params ''$skip'' of None \<Rightarrow> JNull | Some v \<Rightarrow> JString v)"
      by (auto simp: getMarkerFromNextLinkUrl_def skip_key split: option.splits)
    with True link show ?thesis by auto
  qed
qed

lemma decodeAB:
  "buildListResponse fakeClient rawEntity (underlying pageAB) = Inr pageAB"
  by (simp add: buildListResponse_def buildListResponse_try_def pageAB_def decodedPage_def
      marker_linkTo2 truthy_queueRecord)

theorem token_is_skip_parameter_of_next_link_witness:
  "buildListResponse fakeClient rawEntity (underlying pageAB) = Inr pageAB \<and>
   get_property (parsedBody (underlying pageAB)) ''nextLink'' = Inr linkTo2 \<and> truthy linkTo2 \<and>
   parseURL fakeClient linkTo2 =
     Some [(''api-version'', ''2017-04''), (''$skip'', ''2''), (''$top'', ''2'')] \<and>
   continuationToken pageAB = JString ''2''"
proof -
  have link: "get_property (parsedBody (underlying pageAB)) ''nextLink'' = Inr linkTo2"
    by (simp add: pageAB_def decodedPage_def)
  have t: "truthy linkTo2" by (simp add: linkTo2_def)
  have tok: "continuationToken pageAB = JString ''2''"
    by (simp add: pageAB_def decodedPage_def)
  show ?thesis
    using token_is_skip_parameter_of_next_link [OF decodeAB] decodeAB link t tok
      parse_linkTo2 fake_parseURL
    by simp
qed

text \<open>
  Claim C8 as stated fails in its last part: a next link whose \<^verbatim>\<open>$skip\<close> is not a
  number gives a token that does not decode to a non-negative integer, and a
  next link without \<^verbatim>\<open>$skip\<close> gives \<^verbatim>\<open>null\<close>, which is not a string.
\<close>

theorem token_need_not_decode_counterexample:
  "buildListResponse fakeClient rawEntity
     \<lparr>status = 200, request = pageRequest [],
      parsedBody = JArray [queueRecord ''A''] (JString ''https://sb.example/$Resources/Queues?$skip=abc'')\<rparr> =
     Inr \<lparr>entities = [queueRecord ''A''], continuationToken = JString ''abc'',
          underlying = \<lparr>status = 200, request = pageRequest [],
            parsedBody = JArray [queueRecord ''A''] (JString ''https://sb.example/$Resources/Queues?$skip=abc'')\<rparr>\<rparr> \<and>
   \<not> decodesToNonNegativeInteger (JString ''abc'') \<and>
   buildListResponse fakeClient rawEntity
     \<lparr>status = 200, request = pageRequest [],
      parsedBody = JArray [queueRecord ''A''] (JString ''https://sb.example/$Resources/Queues?$top=2'')\<rparr> =
     Inr \<lparr>entities = [queueRecord ''A''], continuationToken = JNull,
          underlying = \<lparr>status = 200, request = pageRequest [],
            parsedBody = JArray [queueRecord ''A''] (JString ''https://sb.example/$Resources/Queues?$top=2'')\<rparr>\<rparr> \<and>
   \<not> decodesToNonNegativeInteger JNull"
proof -
  have p1: "simpleParseURL (JString ''https://sb.example/$Resources/Queues?$skip=abc'') =
              Some [(''$skip'', ''abc'')]"
    by (simp add: simpleParseURL_def isPrefixOf_def keyValue_def)
  have p2: "simpleParseURL (JString ''https://sb.example/$Resources/Queues?$top=2'') =
              Some [(''$top'', ''2'')]"
    by (simp add: simpleParseURL_def isPrefixOf_def keyValue_def)
  have m1: "getMarkerFromNextLinkUrl fakeClient
              (JString ''https://sb.example/$Resources/Queues?$skip=abc'') = Inr (JString ''abc'')"
    by (simp add: getMarkerFromNextLinkUrl_def fake_parseURL p1 skip_key)
  have m2: "getMarkerFromNextLinkUrl fakeClient
              (JString ''https://sb.example/$Resources/Queues?$top=2'') = Inr JNull"
    by (simp add: getMarkerFromNextLinkUrl_def fake_parseURL p2 skip_key)
  have d1: "\<not> decodesToNonNegativeInteger (JString ''abc'')"
    by (simp add: decodesToNonNegativeInteger_def Number_abc)
  have d2: "\<not> decodesToNonNegativeInteger JNull"
    by (simp add: decodesToNonNegativeInteger_def)
  show ?thesis
    using d1 d2
    by (simp add: buildListResponse_def buildListResponse_try_def m1 m2 truthy_queueRecord)
qed

section \<open>Empty bodies\<close>

lemma not_found_bodies:
  "is_not_found_body JUndefined" "is_not_found_body JNull" "is_not_found_body (JArray [] link)"
  by (simp_all add: is_not_found_body_def)

lemma getResource_not_found:
  assumes "srv (WebResource name [] GET) = Inr resp" and "is_not_found_body (parsedBody resp)"
  shows "getResource srv name sent =
           (Inl (RestError (Some ''MessageEntityNotFoundError'') (Some 404)
                   (Some (stripRequest (WebResource name [] GET))) (Some (stripResponse resp))),
            sent @ [WebResource name [] GET])"
  using assms
  by (simp add: getResource_def executeAtomXmlOperation_def MessageEntityNotFoundError_def Let_def)

lemma empty_page:
  assumes "parsedBody resp = JArray [] JUndefined"
  shows "buildListResponse cl build resp =
           Inr \<lparr>entities = [], continuationToken = JUndefined, underlying = resp\<rparr>"
  using assms
  by (simp add: buildListResponse_def buildListResponse_try_def getMarkerFromNextLinkUrl_def)

text \<open>
  Claim C5. A listing response whose body is the empty array \<^verbatim>\<open>[]\<close> (no element
  and no next link) is decoded to the empty page without a continuation token:
  the page iteration yields this one page and ends, and the flat iteration ends
  at once, neither with an error and both after that single request. A
  single-entity get whose response body is \<^verbatim>\<open>undefined\<close> or an empty array raises
  the \<^verbatim>\<open>RestError\<close> with code \<^verbatim>\<open>MessageEntityNotFoundError\<close> and status 404 in
  \<^verbatim>\<open>getResource\<close>, and so do \<^verbatim>\<open>getQueue\<close>, \<^verbatim>\<open>getTopic\<close>, \<^verbatim>\<open>getSubscription\<close> and
  \<^verbatim>\<open>getRule\<close>.
\<close>

theorem empty_array_is_a_page_but_no_entity:
  "(listResources (service cl) (resource l) (Number marker) maxPageSize sent = (Inr resp, sent') \<and>
    parsedBody resp = JArray [] JUndefined \<longrightarrow>
      listEntities cl l (Number marker) maxPageSize sent =
        (Inr \<lparr>entities = [], continuationToken = JUndefined, underlying = resp\<rparr>, sent') \<and>
      pagesReceived (Suc (Suc n)) cl l (listEntitiesPage marker maxPageSize) sent =
        ([\<lparr>entities = [], continuationToken = JUndefined, underlying = resp\<rparr>],
         Finished, Completed, sent') \<and>
      (marker = JUndefined \<and> maxPageSize = None \<longrightarrow>
         elementsReceived (Suc m) cl l getEntities_iter sent =
           Some ([], Finished, FlatCompleted, sent'))) \<and>
   (service cl (WebResource name [] GET) = Inr found \<and>
    (parsedBody found = JUndefined \<or> parsedBody found = JArray [] link) \<longrightarrow>
      getResource (service cl) name sent =
        (Inl (RestError (Some ''MessageEntityNotFoundError'') (Some 404)
                (Some (stripRequest (WebResource name [] GET))) (Some (stripResponse found))),
         sent @ [WebResource name [] GET]) \<and>
      (name = [queueName] \<longrightarrow>
         fst (getQueue cl buildQueue queueName sent) =
           Inl (RestError (Some ''MessageEntityNotFoundError'') (Some 404)
                  (Some (stripRequest (WebResource name [] GET))) (Some (stripResponse found))) \<and>
         fst (getTopic cl buildTopic queueName sent) =
           Inl (RestError (Some ''MessageEntityNotFoundError'') (Some 404)
                  (Some (stripRequest (WebResource name [] GET))) (Some (stripResponse found)))) \<and>
      (name = getSubscriptionPath topicName subscriptionName \<longrightarrow>
         fst (getSubscription cl buildSubscription topicName subscriptionName sent) =
           Inl (RestError (Some ''MessageEntityNotFoundError'') (Some 404)
                  (Some (stripRequest (WebResource name [] GET))) (Some (stripResponse found)))) \<and>
      (name = getRulePath topicName subscriptionName ruleName \<longrightarrow>
         fst (getRule cl buildRule topicName subscriptionName ruleName sent) =
           Inl (RestError (Some ''MessageEntityNotFoundError'') (Some 404)
                  (Some (stripRequest (WebResource name [] GET))) (Some (stripResponse found)))))"
proof (intro conjI impI)
  assume h: "listResources (service cl) (resource l) (Number marker) maxPageSize sent =
               (Inr resp, sent') \<and> parsedBody resp = JArray [] JUndefined"
  then have page: "buildListResponse cl (decoder l) resp =
                     Inr \<lparr>entities = [], continuationToken = JUndefined, underlying = resp\<rparr>"
    using empty_page by blast
  show one: "listEntities cl l (Number marker) maxPageSize sent =
          (Inr \<lparr>entities = [], continuationToken = JUndefined, underlying = resp\<rparr>, sent')"
    using h page by (simp add: listEntities_def)
  then have first: "listEntitiesPage_next cl l (listEntitiesPage marker maxPageSize) sent =
      (Value \<lparr>entities = [], continuationToken = JUndefined, underlying = resp\<rparr>,
       AtYield JUndefined maxPageSize, sent')"
    by (simp add: listEntitiesPage_def fetch_and_yield_def)
  show run: "pagesReceived (Suc (Suc n)) cl l (listEntitiesPage marker maxPageSize) sent =
          ([\<lparr>entities = [], continuationToken = JUndefined, underlying = resp\<rparr>],
           Finished, Completed, sent')"
    using first by simp
  assume "marker = JUndefined \<and> maxPageSize = None"
  with run have "pagesReceived (Suc (Suc n)) cl l (listEntitiesPage JUndefined None) sent =
          ([\<lparr>entities = [], continuationToken = JUndefined, underlying = resp\<rparr>],
           Finished, Completed, sent')"
    by simp
  from flat_finished [OF this]
  have "elementsReceived (Suc 0) cl l (InSegment (listEntitiesPage JUndefined None) []) sent =
          Some ([], Finished, FlatCompleted, sent')"
    by simp
  then have next1: "getEntities_next cl l getEntities_iter sent = Some (Done, FlatCompleted, sent')"
    by (auto simp: getEntities_next_def getEntities_iter_def listEntitiesAll_def
        split: option.splits prod.splits iterator_result.splits)
  show "elementsReceived (Suc m) cl l getEntities_iter sent =
          Some ([], Finished, FlatCompleted, sent')"
    using next1 by simp
next
  assume h: "service cl (WebResource name [] GET) = Inr found \<and>
             (parsedBody found = JUndefined \<or> parsedBody found = JArray [] link)"
  then have nf: "is_not_found_body (parsedBody found)" by (auto simp: not_found_bodies)
  show res: "getResource (service cl) name sent =
        (Inl (RestError (Some ''MessageEntityNotFoundError'') (Some 404)
                (Some (stripRequest (WebResource name [] GET))) (Some (stripResponse found))),
         sent @ [WebResource name [] GET])"
    using getResource_not_found [of "service cl" name found sent] h nf by simp
  {
    assume "name = [queueName]"
    with res show "fst (getQueue cl buildQueue queueName sent) =
           Inl (RestError (Some ''MessageEntityNotFoundError'') (Some 404)
                  (Some (stripRequest (WebResource name [] GET))) (Some (stripResponse found)))"
      and "fst (getTopic cl buildTopic queueName sent) =
           Inl (RestError (Some ''MessageEntityNotFoundError'') (Some 404)
                  (Some (stripRequest (WebResource name [] GET))) (Some (stripResponse found)))"
      by (simp_all add: getQueue_def getTopic_def)
  }
  {
    assume "name = getSubscriptionPath topicName subscriptionName"
    with res show "fst (getSubscription cl buildSubscription topicName subscriptionName sent) =
           Inl (RestError (Some ''MessageEntityNotFoundError'') (Some 404)
                  (Some (stripRequest (WebResource name [] GET))) (Some (stripResponse found)))"
      by (simp add: getSubscription_def)
  }
  {
    assume "name = getRulePath topicName subscriptionName ruleName"
    with res show "fst (getRule cl buildRule topicName subscriptionName ruleName sent) =
           Inl (RestError (Some ''MessageEntityNotFoundError'') (Some 404)
                  (Some (stripRequest (WebResource name [] GET))) (Some (stripResponse found)))"
      by (simp add: getRule_def)
  }
qed

theorem empty_array_is_a_page_but_no_entity_witness:
  "listResources (service (clientOf (answering 200 (JArray [] JUndefined))))
     (resource (queues rawEntity)) (Number JUndefined) None [] =
     (Inr \<lparr>status = 200, request = pageRequest [], parsedBody = JArray [] JUndefined\<rparr>,
      [pageRequest []]) \<and>
   pagesReceived 2 (clientOf (answering 200 (JArray [] JUndefined))) (queues rawEntity)
     (listEntitiesPage JUndefined None) [] =
     ([\<lparr>entities = [], continuationToken = JUndefined,
        underlying = \<lparr>status = 200, request = pageRequest [], parsedBody = JArray [] JUndefined\<rparr>\<rparr>],
      Finished, Completed, [pageRequest []]) \<and>
   elementsReceived 1 (clientOf (answering 200 (JArray [] JUndefined))) (queues rawEntity)
     getEntities_iter [] = Some ([], Finished, FlatCompleted, [pageRequest []]) \<and>
   service (clientOf (answering 200 (JArray [] JUndefined))) (WebResource [JString ''q''] [] GET) =
     Inr \<lparr>status = 200, request = WebResource [JString ''q''] [] GET,
          parsedBody = JArray [] JUndefined\<rparr> \<and>
   fst (getQueue (clientOf (answering 200 (JArray [] JUndefined))) rawEntity (JString ''q'') []) =
     Inl (RestError (Some ''MessageEntityNotFoundError'') (Some 404)
            (Some (stripRequest (WebResource [JString ''q''] [] GET)))
            (Some (stripResponse \<lparr>status = 200, request = WebResource [JString ''q''] [] GET,
                     parsedBody = JArray [] JUndefined\<rparr>)))"
proof -
  have listed: "listResources (service (clientOf (answering 200 (JArray [] JUndefined))))
     (resource (queues rawEntity)) (Number JUndefined) None [] =
     (Inr \<lparr>status = 200, request = pageRequest [], parsedBody = JArray [] JUndefined\<rparr>,
      [pageRequest []])"
    by (simp add: listResources_def executeAtomXmlOperation_def clientOf_fields answering_def
        queues_def pageRequest_def number_truthy_def)
  have got: "service (clientOf (answering 200 (JArray [] JUndefined)))
               (WebResource [JString ''q''] [] GET) =
             Inr \<lparr>status = 200, request = WebResource [JString ''q''] [] GET,
                  parsedBody = JArray [] JUndefined\<rparr>"
    by (simp add: clientOf_fields answering_def)
  have two: "(2::nat) = Suc (Suc 0)" and one: "(1::nat) = Suc 0" by simp_all
  show ?thesis
    using empty_array_is_a_page_but_no_entity
            [of "clientOf (answering 200 (JArray [] JUndefined))" "queues rawEntity" JUndefined
                None "[]" "\<lparr>status = 200, request = pageRequest [], parsedBody = JArray [] JUndefined\<rparr>"
                "[pageRequest []]" 0 0 "[JString ''q'']"
                "\<lparr>status = 200, request = WebResource [JString ''q''] [] GET,
                  parsedBody = JArray [] JUndefined\<rparr>" JUndefined "JString ''q''" rawEntity]
      listed got
    unfolding two one by (simp del: pagesReceived.simps elementsReceived.simps)
qed

section \<open>Existence checks\<close>

lemma exists_cases:
  fixes got :: "(error + js_value \<times> response) \<times> wire"
  defines "checked \<equiv>
     (case got of
        (Inl e, sent') \<Rightarrow>
          if error_code e = Some MessageEntityNotFoundError then (Inr False, sent')
          else (Inl e, sent')
      | (Inr r, sent') \<Rightarrow> (Inr True, sent'))"
  shows "((fst checked = Inr False) =
            (\<exists>e. fst got = Inl e \<and> error_code e = Some ''MessageEntityNotFoundError'')) \<and>
         ((fst checked = Inr True) = (\<exists>r. fst got = Inr r)) \<and>
         (\<forall>e. fst got = Inl e \<and> error_code e \<noteq> Some ''MessageEntityNotFoundError'' \<longrightarrow>
               fst checked = Inl e) \<and>
         snd checked = snd got"
  unfolding checked_def
  by (cases got; cases "fst got") (auto simp: MessageEntityNotFoundError_def)

text \<open>
  Claim C9. \<^verbatim>\<open>queueExists\<close>, \<^verbatim>\<open>topicExists\<close> and \<^verbatim>\<open>subscriptionExists\<close> return
  \<^verbatim>\<open>false\<close> exactly when the underlying get raises an error whose code is
  \<^verbatim>\<open>MessageEntityNotFoundError\<close>, return \<^verbatim>\<open>true\<close> exactly when the get succeeds, and
  raise the error of the get itself when it has another code. They send what
  the get sends.
\<close>

theorem exists_is_false_only_for_not_found:
  "((fst (queueExists cl buildQueue queueName sent) = Inr False) =
      (\<exists>e. fst (getQueue cl buildQueue queueName sent) = Inl e \<and>
           error_code e = Some ''MessageEntityNotFoundError'')) \<and>
   ((fst (queueExists cl buildQueue queueName sent) = Inr True) =
      (\<exists>r. fst (getQueue cl buildQueue queueName sent) = Inr r)) \<and>
   (\<forall>e. fst (getQueue cl buildQueue queueName sent) = Inl e \<and>
        error_code e \<noteq> Some ''MessageEntityNotFoundError'' \<longrightarrow>
        fst (queueExists cl buildQueue queueName sent) = Inl e) \<and>
   snd (queueExists cl buildQueue queueName sent) = snd (getQueue cl buildQueue queueName sent) \<and>
   ((fst (topicExists cl buildTopic topicName sent) = Inr False) =
      (\<exists>e. fst (getTopic cl buildTopic topicName sent) = Inl e \<and>
           error_code e = Some ''MessageEntityNotFoundError'')) \<and>
   ((fst (topicExists cl buildTopic topicName sent) = Inr True) =
      (\<exists>r. fst (getTopic cl buildTopic topicName sent) = Inr r)) \<and>
   (\<forall>e. fst (getTopic cl buildTopic topicName sent) = Inl e \<and>
        error_code e \<noteq> Some ''MessageEntityNotFoundError'' \<longrightarrow>
        fst (topicExists cl buildTopic topicName sent) = Inl e) \<and>
   snd (topicExists cl buildTopic topicName sent) = snd (getTopic cl buildTopic topicName sent) \<and>
   ((fst (subscriptionExists cl buildSub topicName subscriptionName sent) = Inr False) =
      (\<exists>e. fst (getSubscription cl buildSub topicName subscriptionName sent) = Inl e \<and>
           error_code e = Some ''MessageEntityNotFoundError'')) \<and>
   ((fst (subscriptionExists cl buildSub topicName subscriptionName sent) = Inr True) =
      (\<exists>r. fst (getSubscription cl buildSub topicName subscriptionName sent) = Inr r)) \<and>
   (\<forall>e. fst (getSubscription cl buildSub topicName subscriptionName sent) = Inl e \<and>
        error_code e \<noteq> Some ''MessageEntityNotFoundError'' \<longrightarrow>
        fst (subscriptionExists cl buildSub topicName subscriptionName sent) = Inl e) \<and>
   snd (subscriptionExists cl buildSub topicName subscriptionName sent) =
     snd (getSubscription cl buildSub topicName subscriptionName sent)"
  using exists_cases [of "getQueue cl buildQueue queueName sent"]
    exists_cases [of "getTopic cl buildTopic topicName sent"]
    exists_cases [of "getSubscription cl buildSub topicName subscriptionName sent"]
  unfolding queueExists_def topicExists_def subscriptionExists_def
  by blast

lemma denied_get:
  "getResource (failing e) name sent = (Inl e, sent @ [WebResource name [] GET])"
  by (simp add: getResource_def executeAtomXmlOperation_def failing_def Let_def)

theorem exists_is_false_only_for_not_found_witness:
  "fst (getQueue (clientOf (failing (RestError (Some ''UnauthorizedRequestError'') (Some 401) None None)))
          rawEntity (JString ''q'') []) =
     Inl (RestError (Some ''UnauthorizedRequestError'') (Some 401) None None) \<and>
   error_code (RestError (Some ''UnauthorizedRequestError'') (Some 401) None None) \<noteq>
     Some ''MessageEntityNotFoundError'' \<and>
   fst (queueExists (clientOf (failing (RestError (Some ''UnauthorizedRequestError'') (Some 401) None None)))
          rawEntity (JString ''q'') []) =
     Inl (RestError (Some ''UnauthorizedRequestError'') (Some 401) None None) \<and>
   fst (getQueue (clientOf (answering 200 (JArray [] JUndefined))) rawEntity (JString ''q'') []) =
     Inl (RestError (Some ''MessageEntityNotFoundError'') (Some 404)
            (Some (stripRequest (WebResource [JString ''q''] [] GET)))
            (Some (stripResponse \<lparr>status = 200, request = WebResource [JString ''q''] [] GET,
                     parsedBody = JArray [] JUndefined\<rparr>))) \<and>
   fst (queueExists (clientOf (answering 200 (JArray [] JUndefined))) rawEntity (JString ''q'') []) =
     Inr False"
proof -
  have denied: "fst (getQueue (clientOf (failing (RestError (Some ''UnauthorizedRequestError'') (Some 401) None None)))
          rawEntity (JString ''q'') []) =
     Inl (RestError (Some ''UnauthorizedRequestError'') (Some 401) None None)"
    by (simp add: getQueue_def clientOf_fields denied_get)
  have other: "error_code (RestError (Some ''UnauthorizedRequestError'') (Some 401) None None) \<noteq>
     Some ''MessageEntityNotFoundError''"
    by simp
  have missing: "fst (getQueue (clientOf (answering 200 (JArray [] JUndefined))) rawEntity (JString ''q'') []) =
     Inl (RestError (Some ''MessageEntityNotFoundError'') (Some 404)
            (Some (stripRequest (WebResource [JString ''q''] [] GET)))
            (Some (stripResponse \<lparr>status = 200, request = WebResource [JString ''q''] [] GET,
                     parsedBody = JArray [] JUndefined\<rparr>)))"
    by (simp add: getQueue_def clientOf_fields answering_def not_found_bodies
        getResource_not_found [of _ _ "\<lparr>status = 200, request = WebResource [JString ''q''] [] GET,
                     parsedBody = JArray [] JUndefined\<rparr>"])
  have code: "error_code (RestError (Some ''MessageEntityNotFoundError'') (Some 404)
            (Some (stripRequest (WebResource [JString ''q''] [] GET)))
            (Some (stripResponse \<lparr>status = 200, request = WebResource [JString ''q''] [] GET,
                     parsedBody = JArray [] JUndefined\<rparr>))) = Some ''MessageEntityNotFoundError''"
    by simp
  have a: "fst (queueExists (clientOf (failing (RestError (Some ''UnauthorizedRequestError'') (Some 401) None None)))
          rawEntity (JString ''q'') []) =
     Inl (RestError (Some ''UnauthorizedRequestError'') (Some 401) None None)"
    using exists_is_false_only_for_not_found
            [of "clientOf (failing (RestError (Some ''UnauthorizedRequestError'') (Some 401) None None))"
                rawEntity "JString ''q''" "[]"]
      denied other by blast
  have b: "fst (queueExists (clientOf (answering 200 (JArray [] JUndefined))) rawEntity (JString ''q'') []) =
     Inr False"
    using exists_is_false_only_for_not_found
            [of "clientOf (answering 200 (JArray [] JUndefined))" rawEntity "JString ''q''" "[]"]
      missing code by blast
  show ?thesis using denied other missing a b by blast
qed

section \<open>Validation before an update\<close>

text \<open>
  Claim C10. \<^verbatim>\<open>updateQueue\<close>, \<^verbatim>\<open>updateTopic\<close>, \<^verbatim>\<open>updateSubscription\<close> and
  \<^verbatim>\<open>updateRule\<close> throw a \<^verbatim>\<open>TypeError\<close> and send no request when the argument is
  not a JSON-like object, or when a required name (\<^verbatim>\<open>name\<close>; \<^verbatim>\<open>topicName\<close> and
  \<^verbatim>\<open>subscriptionName\<close> for a subscription) is missing or otherwise falsy. An
  argument that is \<^verbatim>\<open>undefined\<close> or \<^verbatim>\<open>null\<close> has no readable name and is covered
  by the second case.
\<close>

theorem update_validates_before_request:
  "(\<not> isJSONLikeObject cl queue \<or> (\<forall>v. get_property queue ''name'' = Inr v \<longrightarrow> \<not> truthy v) \<longrightarrow>
      updateQueue cl buildQueueOptions buildQueue queue sent = (Inl TypeError, sent)) \<and>
   (\<not> isJSONLikeObject cl topic \<or> (\<forall>v. get_property topic ''name'' = Inr v \<longrightarrow> \<not> truthy v) \<longrightarrow>
      updateTopic cl buildTopicOptions buildTopic topic sent = (Inl TypeError, sent)) \<and>
   (\<not> isJSONLikeObject cl subscription \<or>
    (\<forall>v. get_property subscription ''topicName'' = Inr v \<longrightarrow> \<not> truthy v) \<or>
    (\<forall>v. get_property subscription ''subscriptionName'' = Inr v \<longrightarrow> \<not> truthy v) \<longrightarrow>
      updateSubscription cl buildSubscriptionOptions buildSubscription subscription sent =
        (Inl TypeError, sent)) \<and>
   (\<not> isJSONLikeObject cl rule \<or> (\<forall>v. get_property rule ''name'' = Inr v \<longrightarrow> \<not> truthy v) \<longrightarrow>
      updateRule cl buildRule topicName subscriptionName rule sent = (Inl TypeError, sent))"
proof -
  have read: "get_property x key = Inl e \<Longrightarrow> e = TypeError" for x key e
    by (cases x) auto
  have both: "get_property x key = Inl e \<Longrightarrow> get_property x key' = Inl e" for x key key' e
    by (cases x) auto
  have q: "\<not> isJSONLikeObject cl queue \<or> (\<forall>v. get_property queue ''name'' = Inr v \<longrightarrow> \<not> truthy v) \<longrightarrow>
      updateQueue cl buildQueueOptions buildQueue queue sent = (Inl TypeError, sent)"
    by (cases "get_property queue ''name''") (auto simp: updateQueue_def dest: read)
  have t: "\<not> isJSONLikeObject cl topic \<or> (\<forall>v. get_property topic ''name'' = Inr v \<longrightarrow> \<not> truthy v) \<longrightarrow>
      updateTopic cl buildTopicOptions buildTopic topic sent = (Inl TypeError, sent)"
    by (cases "get_property topic ''name''") (auto simp: updateTopic_def dest: read)
  have s: "\<not> isJSONLikeObject cl subscription \<or>
    (\<forall>v. get_property subscription ''topicName'' = Inr v \<longrightarrow> \<not> truthy v) \<or>
    (\<forall>v. get_property subscription ''subscriptionName'' = Inr v \<longrightarrow> \<not> truthy v) \<longrightarrow>
      updateSubscription cl buildSubscriptionOptions buildSubscription subscription sent =
        (Inl TypeError, sent)"
  proof (cases "get_property subscription ''subscriptionName''")
    case (Inl e)
    then show ?thesis using read [OF Inl] by (simp add: updateSubscription_def)
  next
    case sub: (Inr sn)
    show ?thesis
    proof (cases "get_property subscription ''topicName''")
      case (Inl e)
      from both [OF Inl, of "''subscriptionName''"] sub show ?thesis by simp
    next
      case (Inr tn)
      with sub show ?thesis by (auto simp: updateSubscription_def)
    qed
  qed
  have r: "\<not> isJSONLikeObject cl rule \<or> (\<forall>v. get_property rule ''name'' = Inr v \<longrightarrow> \<not> truthy v) \<longrightarrow>
      updateRule cl buildRule topicName subscriptionName rule sent = (Inl TypeError, sent)"
    by (cases "get_property rule ''name''") (auto simp: updateRule_def dest: read)
  show ?thesis using q t s r by blast
qed

theorem update_validates_before_request_witness:
  "get_property (JObject [(''lockDuration'', JString ''PT1M'')]) ''name'' = Inr JUndefined \<and>
   updateQueue fakeClient Inr rawEntity (JObject [(''lockDuration'', JString ''PT1M'')]) [] =
     (Inl TypeError, []) \<and>
   \<not> isJSONLikeObject fakeClient (JString ''orders'') \<and>
   updateTopic fakeClient Inr rawEntity (JString ''orders'') [] = (Inl TypeError, []) \<and>
   get_property (JObject [(''subscriptionName'', JString ''s1'')]) ''topicName'' = Inr JUndefined \<and>
   updateSubscription fakeClient Inr rawEntity (JObject [(''subscriptionName'', JString ''s1'')]) [] =
     (Inl TypeError, []) \<and>
   get_property JUndefined ''name'' = Inl TypeError \<and>
   updateRule fakeClient rawEntity (JString ''t1'') (JString ''s1'') JUndefined [] =
     (Inl TypeError, [])"
proof -
  have a: "\<forall>v. get_property (JObject [(''lockDuration'', JString ''PT1M'')]) ''name'' = Inr v \<longrightarrow> \<not> truthy v"
    by simp
  have b: "\<not> isJSONLikeObject fakeClient (JString ''orders'')"
    by (simp add: fakeClient_def clientOf_fields)
  have c: "\<forall>v. get_property (JObject [(''subscriptionName'', JString ''s1'')]) ''topicName'' = Inr v
        \<longrightarrow> \<not> truthy v"
    by simp
  have d: "\<forall>v. get_property JUndefined ''name'' = Inr v \<longrightarrow> \<not> truthy v"
    by simp
  have reads:
    "get_property (JObject [(''lockDuration'', JString ''PT1M'')]) ''name'' = Inr JUndefined"
    "get_property (JObject [(''subscriptionName'', JString ''s1'')]) ''topicName'' = Inr JUndefined"
    "get_property JUndefined ''name'' = Inl TypeError"
    by simp_all
  show ?thesis
    using update_validates_before_request
            [of fakeClient "JObject [(''lockDuration'', JString ''PT1M'')]" Inr rawEntity "[]"
                "JString ''orders''" Inr rawEntity
                "JObject [(''subscriptionName'', JString ''s1'')]" Inr rawEntity
                JUndefined rawEntity "JString ''t1''" "JString ''s1''"]
      a b c d reads by blast
qed


end
